theory Spec2Isabelle
  imports Complex_Main "HOL-Library.Multiset"
begin

section \<open>Data model of \<open>program_director/scanner.py\<close>\<close>

text \<open>
  Python floats that come out of a JSON document are finite, so they are rationals and
  compare like rationals; ratings are modelled as \<open>rat\<close>. Python integers are \<open>int\<close>.
\<close>

record MovieItem =
  m_id :: int
  m_title :: string
  m_year :: int
  m_genres :: "string list"
  m_runtime :: int
  m_overview :: string
  imdb_rating :: rat
  tmdb_rating :: rat
  has_file :: bool

record SeriesItem =
  s_id :: int
  s_title :: string
  s_year :: int
  s_genres :: "string list"
  s_runtime :: int
  s_overview :: string
  s_rating :: rat
  episode_count :: int
  series_type :: string

text \<open>
  A raw record is a JSON object whose keys may be absent: every key is an option, \<open>None\<close>
  when the key is missing. The nested objects \<open>ratings.imdb\<close>, \<open>ratings.tmdb\<close> (movies),
  \<open>ratings\<close> and \<open>statistics\<close> (series) are objects with one optional key each.
  A key that is present holds a value of the type the catalog API documents for it;
  \<open>statistics.episodeFileCount\<close> is a count of files, a natural number.
\<close>

record movie_ratings =
  imdb :: "rat option option"
  tmdb :: "rat option option"

record raw_movie =
  rm_id :: "int option"
  rm_title :: "string option"
  rm_year :: "int option"
  rm_genres :: "string list option"
  rm_runtime :: "int option"
  rm_overview :: "string option"
  rm_hasFile :: "bool option"
  rm_ratings :: "movie_ratings option"

record raw_series =
  rs_id :: "int option"
  rs_title :: "string option"
  rs_year :: "int option"
  rs_genres :: "string list option"
  rs_runtime :: "int option"
  rs_overview :: "string option"
  rs_seriesType :: "string option"
  rs_ratings :: "rat option option"
  rs_statistics :: "nat option option"

text \<open>\<open>d.get(key, default)\<close> of a Python dict.\<close>

definition dict_get :: "'a option \<Rightarrow> 'a \<Rightarrow> 'a" where
  "dict_get v dflt = (case v of None \<Rightarrow> dflt | Some x \<Rightarrow> x)"

section \<open>\<open>RadarrClient.get_movies\<close>\<close>

text \<open>
  The body of the \<open>for item in data\<close> loop, with the list \<open>movies\<close> it appends to.
  \<open>ratings.get("imdb", {})\<close> of an absent \<open>ratings\<close> is the empty object, whose \<open>value\<close>
  is absent in turn.
\<close>

fun get_movies_loop :: "raw_movie list \<Rightarrow> MovieItem list \<Rightarrow> MovieItem list" where
  "get_movies_loop [] movies = movies"
| "get_movies_loop (item # data) movies =
     (if \<not> dict_get (rm_hasFile item) False then get_movies_loop data movies
      else
        let ratings = dict_get (rm_ratings item) \<lparr>imdb = None, tmdb = None\<rparr>;
            imdb_v = dict_get (dict_get (imdb ratings) None) 0;
            tmdb_v = dict_get (dict_get (tmdb ratings) None) 0
        in get_movies_loop data
             (movies @
              [\<lparr>m_id = dict_get (rm_id item) 0,
                m_title = dict_get (rm_title item) ''Unknown'',
                m_year = dict_get (rm_year item) 0,
                m_genres = dict_get (rm_genres item) [],
                m_runtime = dict_get (rm_runtime item) 0,
                m_overview = dict_get (rm_overview item) '''',
                imdb_rating = imdb_v,
                tmdb_rating = tmdb_v,
                has_file = True\<rparr>]))"

definition get_movies_of :: "raw_movie list \<Rightarrow> MovieItem list" where
  "get_movies_of data = get_movies_loop data []"

subsection \<open>What the specification says a movie record becomes\<close>

text \<open>
  Written from the specification's words: a record is kept when its file flag is present
  and true, and each field takes its documented default when absent.
\<close>

definition file_present :: "raw_movie \<Rightarrow> bool" where
  "file_present r = (rm_hasFile r = Some True)"

definition spec_imdb :: "raw_movie \<Rightarrow> rat" where
  "spec_imdb r =
     (case rm_ratings r of None \<Rightarrow> 0
      | Some rs \<Rightarrow> (case imdb rs of Some (Some v) \<Rightarrow> v | _ \<Rightarrow> 0))"

definition spec_tmdb :: "raw_movie \<Rightarrow> rat" where
  "spec_tmdb r =
     (case rm_ratings r of None \<Rightarrow> 0
      | Some rs \<Rightarrow> (case tmdb rs of Some (Some v) \<Rightarrow> v | _ \<Rightarrow> 0))"

definition spec_movie :: "raw_movie \<Rightarrow> MovieItem" where
  "spec_movie r =
     \<lparr>m_id = (case rm_id r of None \<Rightarrow> 0 | Some i \<Rightarrow> i),
      m_title = (case rm_title r of None \<Rightarrow> ''Unknown'' | Some t \<Rightarrow> t),
      m_year = (case rm_year r of None \<Rightarrow> 0 | Some y \<Rightarrow> y),
      m_genres = (case rm_genres r of None \<Rightarrow> [] | Some g \<Rightarrow> g),
      m_runtime = (case rm_runtime r of None \<Rightarrow> 0 | Some t \<Rightarrow> t),
      m_overview = (case rm_overview r of None \<Rightarrow> '''' | Some t \<Rightarrow> t),
      imdb_rating = spec_imdb r,
      tmdb_rating = spec_tmdb r,
      has_file = True\<rparr>"

text \<open>The two records of the specification's scenario.\<close>

definition movie_a_raw :: raw_movie where
  "movie_a_raw =
     \<lparr>rm_id = Some 1, rm_title = Some ''Movie A'', rm_year = Some 2020,
      rm_genres = Some [''Action''], rm_runtime = None, rm_overview = None,
      rm_hasFile = Some True,
      rm_ratings = Some \<lparr>imdb = Some (Some (17 / 2)), tmdb = None\<rparr>\<rparr>"

definition no_file_raw :: raw_movie where
  "no_file_raw =
     \<lparr>rm_id = Some 2, rm_title = Some ''Movie B'', rm_year = Some 2021,
      rm_genres = None, rm_runtime = None, rm_overview = None,
      rm_hasFile = Some False, rm_ratings = None\<rparr>"

section \<open>\<open>SonarrClient.get_series\<close>\<close>

text \<open>
  The loop of \<open>get_series\<close>; \<open>ec\<close> is the local \<open>episode_count\<close>, read from the
  \<open>statistics\<close> object with default 0 and compared with 0 by \<open>==\<close>. The item stores
  it as a Python integer.
\<close>

fun get_series_loop :: "raw_series list \<Rightarrow> SeriesItem list \<Rightarrow> SeriesItem list" where
  "get_series_loop [] series_list = series_list"
| "get_series_loop (item # data) series_list =
     (let stats = dict_get (rs_statistics item) None;
          ec = dict_get stats (0::nat)
      in if ec = 0 then get_series_loop data series_list
         else
           let ratings = dict_get (rs_ratings item) None
           in get_series_loop data
                (series_list @
                 [\<lparr>s_id = dict_get (rs_id item) 0,
                   s_title = dict_get (rs_title item) ''Unknown'',
                   s_year = dict_get (rs_year item) 0,
                   s_genres = dict_get (rs_genres item) [],
                   s_runtime = dict_get (rs_runtime item) 0,
                   s_overview = dict_get (rs_overview item) '''',
                   s_rating = dict_get ratings 0,
                   episode_count = int ec,
                   series_type = dict_get (rs_seriesType item) ''standard''\<rparr>]))"

definition get_series_of :: "raw_series list \<Rightarrow> SeriesItem list" where
  "get_series_of data = get_series_loop data []"

text \<open>The downloaded-episode count a raw record reports, 0 when it reports none.\<close>

definition raw_episode_count :: "raw_series \<Rightarrow> nat" where
  "raw_episode_count r = dict_get (dict_get (rs_statistics r) None) 0"

definition raw_series_id :: "raw_series \<Rightarrow> int" where
  "raw_series_id r = dict_get (rs_id r) 0"

definition raw_movie_id :: "raw_movie \<Rightarrow> int" where
  "raw_movie_id r = dict_get (rm_id r) 0"

text \<open>
  Example records: a series without episode files, the series of the specification's
  scenario, and two pairs of records whose identifiers coincide once the absent one
  has taken its default 0.
\<close>

definition zero_count_raw :: raw_series where
  "zero_count_raw =
     \<lparr>rs_id = Some 8, rs_title = Some ''Show Z'', rs_year = None, rs_genres = None,
      rs_runtime = None, rs_overview = None, rs_seriesType = None, rs_ratings = None,
      rs_statistics = Some (Some 0)\<rparr>"

definition zero_count_id0_raw :: raw_series where
  "zero_count_id0_raw =
     \<lparr>rs_id = Some 0, rs_title = Some ''Show E'', rs_year = None, rs_genres = None,
      rs_runtime = None, rs_overview = None, rs_seriesType = None, rs_ratings = None,
      rs_statistics = Some (Some 0)\<rparr>"

definition no_id_series_raw :: raw_series where
  "no_id_series_raw =
     \<lparr>rs_id = None, rs_title = Some ''Show F'', rs_year = None, rs_genres = None,
      rs_runtime = None, rs_overview = None, rs_seriesType = None, rs_ratings = None,
      rs_statistics = Some (Some 3)\<rparr>"

definition no_file_id0_raw :: raw_movie where
  "no_file_id0_raw =
     \<lparr>rm_id = Some 0, rm_title = Some ''Movie C'', rm_year = None, rm_genres = None,
      rm_runtime = None, rm_overview = None, rm_hasFile = Some False, rm_ratings = None\<rparr>"

definition no_id_movie_raw :: raw_movie where
  "no_id_movie_raw =
     \<lparr>rm_id = None, rm_title = Some ''Movie D'', rm_year = None, rm_genres = None,
      rm_runtime = None, rm_overview = None, rm_hasFile = Some True, rm_ratings = None\<rparr>"

definition show_x_raw :: raw_series where
  "show_x_raw =
     \<lparr>rs_id = Some 5, rs_title = Some ''Show X'', rs_year = None, rs_genres = None,
      rs_runtime = None, rs_overview = None, rs_seriesType = Some ''anime'',
      rs_ratings = None, rs_statistics = Some (Some 12)\<rparr>"

section \<open>Strings\<close>

text \<open>
  \<open>str.lower()\<close> is Python's Unicode lower-casing, a function from strings to strings.
  The development does not fix it: every function that lower-cases takes it as its
  first argument \<open>lower\<close>, and every theorem holds for whatever function it is. A
  string is its UTF-8 text; equality, concatenation and the substring test on UTF-8
  text are those on the code points, and no function here counts or indexes
  characters.

  On a string of ASCII characters \<open>str.lower()\<close> maps \<open>A\<close>..\<open>Z\<close> to \<open>a\<close>..\<open>z\<close> and leaves
  every other character as it is: that is \<open>lower_ascii\<close>, with which the examples, whose
  strings are ASCII, are evaluated. \<open>py_lower\<close> is \<open>str.lower()\<close> with the part Unicode
  prescribes for text that has other characters left as the argument \<open>unicode_lower\<close>.
\<close>

definition lower_ascii_char :: "char \<Rightarrow> char" where
  "lower_ascii_char c =
     (let n = (of_char c :: nat) in if 65 \<le> n \<and> n \<le> 90 then char_of (n + 32) else c)"

definition lower_ascii :: "string \<Rightarrow> string" where
  "lower_ascii s = map lower_ascii_char s"



text \<open>\<open>sep.join(xs)\<close>.\<close>

fun join :: "string \<Rightarrow> string list \<Rightarrow> string" where
  "join sep [] = ''''"
| "join sep [x] = x"
| "join sep (x # y # ys) = x @ sep @ join sep (y # ys)"

text \<open>\<open>needle in haystack\<close> for two strings: the needle starts at some position.\<close>

fun starts_with :: "string \<Rightarrow> string \<Rightarrow> bool" where
  "starts_with [] haystack = True"
| "starts_with (c # needle) [] = False"
| "starts_with (c # needle) (d # haystack) = (c = d \<and> starts_with needle haystack)"

fun str_contains :: "string \<Rightarrow> string \<Rightarrow> bool" where
  "str_contains needle [] = (needle = [])"
| "str_contains needle (d # haystack) =
     (starts_with needle (d # haystack) \<or> str_contains needle haystack)"

section \<open>The anime and TV-show views\<close>

text \<open>The predicate written out in \<open>MediaLibrary.anime\<close> and \<open>SonarrClient.get_anime\<close>.\<close>

definition anime_pred :: "(string \<Rightarrow> string) \<Rightarrow> SeriesItem \<Rightarrow> bool" where
  "anime_pred lower s =
     (series_type s = ''anime'' \<or> ''anime'' \<in> set (map lower (s_genres s)))"

definition anime_of :: "(string \<Rightarrow> string) \<Rightarrow> SeriesItem list \<Rightarrow> SeriesItem list" where
  "anime_of lower series = filter (anime_pred lower) series"

text \<open>
  \<open>tv_shows\<close> reads \<open>anime\<close>, collects its identifiers in a set, and keeps the series whose
  identifier is not in that set.
\<close>

definition tv_shows_from :: "SeriesItem list \<Rightarrow> SeriesItem list \<Rightarrow> SeriesItem list" where
  "tv_shows_from anime_list series =
     (let anime_ids = set (map s_id anime_list)
      in filter (\<lambda>s. s_id s \<notin> anime_ids) series)"

definition tv_shows_of :: "(string \<Rightarrow> string) \<Rightarrow> SeriesItem list \<Rightarrow> SeriesItem list" where
  "tv_shows_of lower series = tv_shows_from (anime_of lower series) series"

section \<open>Ranking and the summary tables\<close>

text \<open>
  \<open>sorted(xs, key=k, reverse=True)\<close>: Python's sort is stable and \<open>reverse=True\<close> keeps
  the elements of equal key in their original order, so the result is the stable sort by
  the negated key.
\<close>

definition sorted_reverse :: "('a \<Rightarrow> 'k::linordered_idom) \<Rightarrow> 'a list \<Rightarrow> 'a list" where
  "sorted_reverse key xs = sort_key (\<lambda>x. - key x) xs"

text \<open>The sort keys \<open>m.imdb_rating or 0\<close> and \<open>s.rating or 0\<close>.\<close>

definition movie_key :: "MovieItem \<Rightarrow> rat" where
  "movie_key m = (if imdb_rating m = 0 then 0 else imdb_rating m)"

definition series_key :: "SeriesItem \<Rightarrow> rat" where
  "series_key s = (if s_rating s = 0 then 0 else s_rating s)"

text \<open>
  One table row, before the numbers are printed: the title, the year, the genres cell as
  text, the rating (\<open>None\<close> stands for the cell \<open>-\<close>, \<open>Some r\<close> for \<open>r\<close> printed with one
  decimal) and the last column (runtime for movies, episode count for series).
\<close>

record table_row =
  row_title :: string
  row_year :: int
  row_genres :: string
  row_rating :: "rat option"
  row_last :: int

definition rating_cell :: "rat \<Rightarrow> rat option" where
  "rating_cell r = (if r = 0 then None else Some r)"

definition movie_row :: "MovieItem \<Rightarrow> table_row" where
  "movie_row movie =
     \<lparr>row_title = m_title movie, row_year = m_year movie,
      row_genres = (if m_genres movie \<noteq> [] then join '', '' (take 3 (m_genres movie)) else ''-''),
      row_rating = rating_cell (imdb_rating movie),
      row_last = m_runtime movie\<rparr>"

definition show_row :: "SeriesItem \<Rightarrow> table_row" where
  "show_row show =
     \<lparr>row_title = s_title show, row_year = s_year show,
      row_genres = (if s_genres show \<noteq> [] then join '', '' (take 3 (s_genres show)) else ''-''),
      row_rating = rating_cell (s_rating show),
      row_last = episode_count show\<rparr>"

text \<open>
  The genres cell of an anime row:
  \<open>", ".join([g for g in anime.genres[:3] if g.lower() != "anime"]) or "-"\<close>.
\<close>

definition anime_genres_cell :: "(string \<Rightarrow> string) \<Rightarrow> string list \<Rightarrow> string" where
  "anime_genres_cell lower genres =
     (let joined = join '', '' (filter (\<lambda>g. lower g \<noteq> ''anime'') (take 3 genres))
      in if joined = '''' then ''-'' else joined)"

definition anime_row :: "(string \<Rightarrow> string) \<Rightarrow> SeriesItem \<Rightarrow> table_row" where
  "anime_row lower a =
     \<lparr>row_title = s_title a, row_year = s_year a,
      row_genres = anime_genres_cell lower (s_genres a),
      row_rating = rating_cell (s_rating a),
      row_last = episode_count a\<rparr>"

definition movie_table :: "MovieItem list \<Rightarrow> table_row list" where
  "movie_table movies = map movie_row (take 100 (sorted_reverse movie_key movies))"

definition show_table :: "SeriesItem list \<Rightarrow> table_row list" where
  "show_table shows = map show_row (take 50 (sorted_reverse series_key shows))"

definition anime_table :: "(string \<Rightarrow> string) \<Rightarrow> SeriesItem list \<Rightarrow> table_row list" where
  "anime_table lower anime_list =
     map (anime_row lower) (take 50 (sorted_reverse series_key anime_list))"

text \<open>
  The document of \<open>get_media_summary\<close>: its three tables and the three totals printed
  under them.
\<close>

record media_summary =
  movies_rows :: "table_row list"
  movies_total :: nat
  shows_rows :: "table_row list"
  shows_total :: nat
  anime_rows :: "table_row list"
  anime_total :: nat


text \<open>
  What the specification says a series record becomes: the defaults of the movie
  records, and the classification tag \<open>standard\<close> when absent.
\<close>

definition spec_series :: "raw_series \<Rightarrow> SeriesItem" where
  "spec_series r =
     \<lparr>s_id = (case rs_id r of None \<Rightarrow> 0 | Some i \<Rightarrow> i),
      s_title = (case rs_title r of None \<Rightarrow> ''Unknown'' | Some t \<Rightarrow> t),
      s_year = (case rs_year r of None \<Rightarrow> 0 | Some y \<Rightarrow> y),
      s_genres = (case rs_genres r of None \<Rightarrow> [] | Some g \<Rightarrow> g),
      s_runtime = (case rs_runtime r of None \<Rightarrow> 0 | Some t \<Rightarrow> t),
      s_overview = (case rs_overview r of None \<Rightarrow> '''' | Some t \<Rightarrow> t),
      s_rating = (case rs_ratings r of Some (Some v) \<Rightarrow> v | _ \<Rightarrow> 0),
      episode_count = (case rs_statistics r of Some (Some n) \<Rightarrow> int n | _ \<Rightarrow> 0),
      series_type = (case rs_seriesType r of None \<Rightarrow> ''standard'' | Some t \<Rightarrow> t)\<rparr>"

text \<open>An anime series that carries the \<open>Anime\<close> genre first, and three more genres.\<close>

definition four_genre_anime :: SeriesItem where
  "four_genre_anime =
     \<lparr>s_id = 1, s_title = ''Series A'', s_year = 2019,
      s_genres = [''Anime'', ''Action'', ''Drama'', ''Comedy''],
      s_runtime = 24, s_overview = '''', s_rating = 8, episode_count = 12,
      series_type = ''anime''\<rparr>"

text \<open>A series that is not anime, and a library whose series cache holds both.\<close>

definition plain_show :: SeriesItem where
  "plain_show =
     \<lparr>s_id = 2, s_title = ''Series B'', s_year = 2015, s_genres = [''Drama''],
      s_runtime = 45, s_overview = ''A quiet town.'', s_rating = 7, episode_count = 20,
      series_type = ''standard''\<rparr>"

text \<open>Three cached movies: one without a rating, then two rated 7.\<close>

definition unrated_movie :: MovieItem where
  "unrated_movie =
     \<lparr>m_id = 10, m_title = ''Movie U'', m_year = 2001, m_genres = [], m_runtime = 90,
      m_overview = '''', imdb_rating = 0, tmdb_rating = 0, has_file = True\<rparr>"

definition first_seven :: MovieItem where
  "first_seven =
     \<lparr>m_id = 11, m_title = ''Movie S'', m_year = 2002, m_genres = [''Drama''],
      m_runtime = 100, m_overview = '''', imdb_rating = 7, tmdb_rating = 0,
      has_file = True\<rparr>"

definition second_seven :: MovieItem where
  "second_seven =
     \<lparr>m_id = 12, m_title = ''Movie T'', m_year = 2003, m_genres = [''Action'', ''Drama''],
      m_runtime = 110, m_overview = '''', imdb_rating = 7, tmdb_rating = 0,
      has_file = True\<rparr>"

section \<open>\<open>get_genre_stats\<close>\<close>

text \<open>
  A Python dict keeps its keys in insertion order, and the order is what the claim about
  ties is about, so \<open>genre_counts\<close> is an association list in insertion order.
  \<open>genre_counts[genre] = genre_counts.get(genre, 0) + 1\<close> updates an existing key in
  place and appends a new key at the end.
\<close>

fun count_genre :: "string \<Rightarrow> (string \<times> int) list \<Rightarrow> (string \<times> int) list" where
  "count_genre genre [] = [(genre, 0 + 1)]"
| "count_genre genre ((k, c) # rest) =
     (if k = genre then (k, c + 1) # rest else (k, c) # count_genre genre rest)"

definition count_movies :: "MovieItem list \<Rightarrow> (string \<times> int) list \<Rightarrow> (string \<times> int) list" where
  "count_movies movies genre_counts =
     fold (\<lambda>movie gc. fold count_genre (m_genres movie) gc) movies genre_counts"

definition count_series :: "SeriesItem list \<Rightarrow> (string \<times> int) list \<Rightarrow> (string \<times> int) list" where
  "count_series series genre_counts =
     fold (\<lambda>s gc. fold count_genre (s_genres s) gc) series genre_counts"

definition genre_counts_of :: "MovieItem list \<Rightarrow> SeriesItem list \<Rightarrow> (string \<times> int) list" where
  "genre_counts_of movies series = count_series series (count_movies movies [])"

definition genre_stats_of :: "MovieItem list \<Rightarrow> SeriesItem list \<Rightarrow> (string \<times> int) list" where
  "genre_stats_of movies series = sorted_reverse snd (genre_counts_of movies series)"

text \<open>
  The genres in the order the two loops meet them, movies first and then series, and the
  same list with every genre kept at its first occurrence only.
\<close>

definition scanned_genres :: "MovieItem list \<Rightarrow> SeriesItem list \<Rightarrow> string list" where
  "scanned_genres movies series = concat (map m_genres movies) @ concat (map s_genres series)"

fun first_seen :: "string list \<Rightarrow> string list" where
  "first_seen [] = []"
| "first_seen (g # gs) = g # filter (\<lambda>h. h \<noteq> g) (first_seen gs)"

section \<open>\<open>search_by_theme\<close>\<close>

fun matches_theme ::
  "(string \<Rightarrow> string) \<Rightarrow> string list \<Rightarrow> string \<Rightarrow> string list \<Rightarrow> bool" where
  "matches_theme lower genres overview [] = False"
| "matches_theme lower genres overview (keyword # keywords) =
     (let genres_lower = map lower genres;
          overview_lower = lower overview
      in if keyword \<in> set genres_lower \<or> str_contains keyword overview_lower then True
         else matches_theme lower genres overview keywords)"

record theme_result =
  matching_movies :: "MovieItem list"
  matching_shows :: "SeriesItem list"
  matching_anime :: "SeriesItem list"

definition search_lists ::
  "(string \<Rightarrow> string) \<Rightarrow> MovieItem list \<Rightarrow> SeriesItem list \<Rightarrow> SeriesItem list \<Rightarrow>
     string list \<Rightarrow> theme_result" where
  "search_lists lower movies shows anime_list theme_keywords =
     (let keywords_lower = map lower theme_keywords
      in \<lparr>matching_movies =
            filter (\<lambda>movie. matches_theme lower (m_genres movie) (m_overview movie) keywords_lower) movies,
          matching_shows =
            filter (\<lambda>show. matches_theme lower (s_genres show) (s_overview show) keywords_lower) shows,
          matching_anime =
            filter (\<lambda>a. matches_theme lower (s_genres a) (s_overview a) keywords_lower) anime_list\<rparr>)"




section \<open>The library and its two caches\<close>

text \<open>
  \<open>_get\<close> either returns the parsed JSON or raises what \<open>httpx\<close> raised: a transport
  error from \<open>client.get\<close> or a status error from \<open>raise_for_status\<close>.
\<close>

datatype error = TransportError string | HTTPStatusError nat

text \<open>
  The state a library instance works in. The two catalog services are the answers they
  give to the first, second, ... request; \<open>radarr_requests\<close> and \<open>sonarr_requests\<close>
  count the requests sent so far. \<open>cached_movies\<close> and \<open>cached_series\<close> are the fields
  \<open>_movies\<close> and \<open>_series\<close>, \<open>None\<close> at construction.
\<close>

record library =
  radarr_answers :: "nat \<Rightarrow> error + raw_movie list"
  radarr_requests :: nat
  sonarr_answers :: "nat \<Rightarrow> error + raw_series list"
  sonarr_requests :: nat
  cached_movies :: "MovieItem list option"
  cached_series :: "SeriesItem list option"

definition new_library ::
  "(nat \<Rightarrow> error + raw_movie list) \<Rightarrow> (nat \<Rightarrow> error + raw_series list) \<Rightarrow> library" where
  "new_library ra sa =
     \<lparr>radarr_answers = ra, radarr_requests = 0, sonarr_answers = sa, sonarr_requests = 0,
      cached_movies = None, cached_series = None\<rparr>"

text \<open>
  A method that may raise returns \<open>Inl\<close> the exception or \<open>Inr\<close> its value, with the
  state it leaves. \<open>and_then\<close> runs the rest of a method body only when the first part
  returned.
\<close>

type_synonym 'a action = "library \<Rightarrow> (error + 'a) \<times> library"

definition and_then :: "'a action \<Rightarrow> ('a \<Rightarrow> 'b action) \<Rightarrow> 'b action" where
  "and_then m f lib =
     (case m lib of (Inl e, lib') \<Rightarrow> (Inl e, lib') | (Inr x, lib') \<Rightarrow> f x lib')"

definition returns :: "'a \<Rightarrow> 'a action" where
  "returns x lib = (Inr x, lib)"

definition radarr_get :: "(raw_movie list) action" where
  "radarr_get lib =
     (radarr_answers lib (radarr_requests lib),
      lib\<lparr>radarr_requests := radarr_requests lib + 1\<rparr>)"

definition sonarr_get :: "(raw_series list) action" where
  "sonarr_get lib =
     (sonarr_answers lib (sonarr_requests lib),
      lib\<lparr>sonarr_requests := sonarr_requests lib + 1\<rparr>)"

definition get_movies :: "(MovieItem list) action" where
  "get_movies = and_then radarr_get (\<lambda>data. returns (get_movies_of data))"

definition get_series :: "(SeriesItem list) action" where
  "get_series = and_then sonarr_get (\<lambda>data. returns (get_series_of data))"

text \<open>The properties \<open>movies\<close>, \<open>series\<close>, \<open>anime\<close> and \<open>tv_shows\<close>.\<close>

definition movies :: "(MovieItem list) action" where
  "movies lib =
     (case cached_movies lib of
        None \<Rightarrow>
          and_then get_movies (\<lambda>ms lib'. (Inr ms, lib'\<lparr>cached_movies := Some ms\<rparr>)) lib
      | Some ms \<Rightarrow> (Inr ms, lib))"

definition series :: "(SeriesItem list) action" where
  "series lib =
     (case cached_series lib of
        None \<Rightarrow>
          and_then get_series (\<lambda>ss lib'. (Inr ss, lib'\<lparr>cached_series := Some ss\<rparr>)) lib
      | Some ss \<Rightarrow> (Inr ss, lib))"

definition anime :: "(string \<Rightarrow> string) \<Rightarrow> (SeriesItem list) action" where
  "anime lower = and_then series (\<lambda>ss. returns (anime_of lower ss))"

definition tv_shows :: "(string \<Rightarrow> string) \<Rightarrow> (SeriesItem list) action" where
  "tv_shows lower =
     and_then (anime lower) (\<lambda>anime_list.
     and_then series (\<lambda>ss. returns (tv_shows_from anime_list ss)))"

text \<open>
  The three methods, reading the properties in the order the source does:
  \<open>get_media_summary\<close> reads \<open>movies\<close> for the table and again for the total, then
  \<open>tv_shows\<close> twice and \<open>anime\<close> twice.
\<close>

definition get_media_summary :: "(string \<Rightarrow> string) \<Rightarrow> media_summary action" where
  "get_media_summary lower =
     and_then movies (\<lambda>ms.
     and_then movies (\<lambda>ms_again.
     and_then (tv_shows lower) (\<lambda>tv.
     and_then (tv_shows lower) (\<lambda>tv_again.
     and_then (anime lower) (\<lambda>an.
     and_then (anime lower) (\<lambda>an_again.
       returns \<lparr>movies_rows = movie_table ms, movies_total = length ms_again,
                shows_rows = show_table tv, shows_total = length tv_again,
                anime_rows = anime_table lower an, anime_total = length an_again\<rparr>))))))"

definition get_genre_stats :: "((string \<times> int) list) action" where
  "get_genre_stats =
     and_then movies (\<lambda>ms.
     and_then series (\<lambda>ss. returns (sorted_reverse snd (count_series ss (count_movies ms [])))))"

definition search_by_theme ::
  "(string \<Rightarrow> string) \<Rightarrow> string list \<Rightarrow> theme_result action" where
  "search_by_theme lower theme_keywords =
     and_then movies (\<lambda>ms.
     and_then (tv_shows lower) (\<lambda>tv.
     and_then (anime lower) (\<lambda>an. returns (search_lists lower ms tv an theme_keywords))))"

text \<open>
  A caller of the library: any sequence of reads of its properties and calls of its
  methods. \<open>call\<close> keeps the state a call leaves and drops its value; a call that raised
  leaves the state the exception left.
\<close>

datatype request =
  Movies | Series | Anime | TvShows | GetMediaSummary | GetGenreStats
  | SearchByTheme "string list"

fun call :: "(string \<Rightarrow> string) \<Rightarrow> request \<Rightarrow> library \<Rightarrow> library" where
  "call lower Movies lib = snd (movies lib)"
| "call lower Series lib = snd (series lib)"
| "call lower Anime lib = snd (anime lower lib)"
| "call lower TvShows lib = snd (tv_shows lower lib)"
| "call lower GetMediaSummary lib = snd (get_media_summary lower lib)"
| "call lower GetGenreStats lib = snd (get_genre_stats lib)"
| "call lower (SearchByTheme ks) lib = snd (search_by_theme lower ks lib)"

definition calls :: "(string \<Rightarrow> string) \<Rightarrow> request list \<Rightarrow> library \<Rightarrow> library" where
  "calls lower rs lib = fold (call lower) rs lib"

text \<open>How many of the requests sent so far were answered with a catalog.\<close>

definition succeeded :: "error + 'a \<Rightarrow> bool" where
  "succeeded r = (case r of Inl e \<Rightarrow> False | Inr x \<Rightarrow> True)"

definition radarr_fetched :: "library \<Rightarrow> nat" where
  "radarr_fetched lib = length (filter (\<lambda>i. succeeded (radarr_answers lib i)) [0..<radarr_requests lib])"

definition sonarr_fetched :: "library \<Rightarrow> nat" where
  "sonarr_fetched lib = length (filter (\<lambda>i. succeeded (sonarr_answers lib i)) [0..<sonarr_requests lib])"

text \<open>A library with both caches populated, for the examples.\<close>

definition warm_library :: library where
  "warm_library =
     \<lparr>radarr_answers = (\<lambda>n. Inr []), radarr_requests = 1,
      sonarr_answers = (\<lambda>n. Inr []), sonarr_requests = 1,
      cached_movies = Some [], cached_series = Some [four_genre_anime, plain_show]\<rparr>"

text \<open>
  The state of the movie cache agrees with the requests sent: an empty cache means no
  request was answered with a catalog, and a cache holding \<open>ms\<close> means exactly one was,
  the last one sent, and \<open>ms\<close> is what \<open>get_movies\<close> builds from its answer. The same
  for the series cache.
\<close>

definition movies_cache_consistent :: "library \<Rightarrow> bool" where
  "movies_cache_consistent lib =
     (case cached_movies lib of
        None \<Rightarrow> radarr_fetched lib = 0
      | Some ms \<Rightarrow>
          radarr_fetched lib = 1 \<and> 0 < radarr_requests lib
          \<and> (case radarr_answers lib (radarr_requests lib - 1) of
                Inl e \<Rightarrow> False | Inr data \<Rightarrow> ms = get_movies_of data))"

definition series_cache_consistent :: "library \<Rightarrow> bool" where
  "series_cache_consistent lib =
     (case cached_series lib of
        None \<Rightarrow> sonarr_fetched lib = 0
      | Some ss \<Rightarrow>
          sonarr_fetched lib = 1 \<and> 0 < sonarr_requests lib
          \<and> (case sonarr_answers lib (sonarr_requests lib - 1) of
                Inl e \<Rightarrow> False | Inr data \<Rightarrow> ss = get_series_of data))"

text \<open>
  The two services never change their answers, and a library reads nothing else of the
  world: \<open>same_services\<close> relates two states of one library instance.
\<close>

definition same_services :: "library \<Rightarrow> library \<Rightarrow> bool" where
  "same_services lib lib' =
     (radarr_answers lib' = radarr_answers lib \<and> sonarr_answers lib' = sonarr_answers lib)"

text \<open>An action keeps a property of the state when every run from a state with the
  property ends in a state with the property, whether it returns or raises.\<close>

definition keeps :: "(library \<Rightarrow> bool) \<Rightarrow> 'a action \<Rightarrow> bool" where
  "keeps P act = (\<forall>lib. P lib \<longrightarrow> P (snd (act lib)))"

text \<open>The result of \<open>search_by_theme\<close> with nothing in it.\<close>

definition no_matches :: theme_result where
  "no_matches = \<lparr>matching_movies = [], matching_shows = [], matching_anime = []\<rparr>"

text \<open>
  Example services: a movie catalog that fails on the first request and answers from
  the second on, and one that always fails; a series catalog that always answers.
\<close>

definition flaky_radarr :: "nat \<Rightarrow> error + raw_movie list" where
  "flaky_radarr n =
     (if n = 0 then Inl (HTTPStatusError 503) else Inr [movie_a_raw, no_file_raw])"

definition down_radarr :: "nat \<Rightarrow> error + raw_movie list" where
  "down_radarr n = Inl (TransportError ''connection refused'')"

definition steady_radarr :: "nat \<Rightarrow> error + raw_movie list" where
  "steady_radarr n = Inr [movie_a_raw, no_file_raw]"

definition steady_sonarr :: "nat \<Rightarrow> error + raw_series list" where
  "steady_sonarr n = Inr [zero_count_raw, show_x_raw]"

definition down_sonarr :: "nat \<Rightarrow> error + raw_series list" where
  "down_sonarr n = Inl (HTTPStatusError 500)"

section \<open>Properties of \<open>get_movies\<close>\<close>

lemma get_movies_loop_acc:
  "get_movies_loop data acc = acc @ map spec_movie (filter file_present data)"
proof (induction data arbitrary: acc)
  case Nil
  show ?case by simp
next
  case (Cons item data)
  show ?case
  proof (cases "rm_hasFile item = Some True")
    case True
    then show ?thesis
      by (simp add: Cons.IH dict_get_def file_present_def spec_movie_def spec_imdb_def
          spec_tmdb_def Let_def split: option.splits)
  next
    case False
    then have "\<not> dict_get (rm_hasFile item) False"
      by (cases "rm_hasFile item") (simp_all add: dict_get_def)
    with False show ?thesis
      by (simp add: Cons.IH file_present_def)
  qed
qed

lemma get_movies_of_eq:
  "get_movies_of data = map spec_movie (filter file_present data)"
  by (simp add: get_movies_of_def get_movies_loop_acc)

lemma m_id_spec_movie: "m_id (spec_movie r) = raw_movie_id r"
  by (simp add: spec_movie_def raw_movie_id_def dict_get_def)

lemma skipped_movie_id_absent:
  assumes "distinct (map raw_movie_id data)" and "r \<in> set data" and "\<not> file_present r"
  shows "raw_movie_id r \<notin> set (map m_id (get_movies_of data))"
proof
  assume "raw_movie_id r \<in> set (map m_id (get_movies_of data))"
  then obtain r' where r': "r' \<in> set data" "file_present r'" "raw_movie_id r' = raw_movie_id r"
    by (auto simp: get_movies_of_eq m_id_spec_movie)
  from assms(1) r'(1) assms(2) r'(3) have "r' = r"
    by (meson distinct_map inj_onD)
  with r'(2) assms(3) show False by simp
qed

lemma scenario_movies:
  "get_movies_of [movie_a_raw, no_file_raw] =
     [\<lparr>m_id = 1, m_title = ''Movie A'', m_year = 2020, m_genres = [''Action''],
       m_runtime = 0, m_overview = '''', imdb_rating = 17 / 2, tmdb_rating = 0,
       has_file = True\<rparr>]"
  by (simp add: get_movies_of_def movie_a_raw_def no_file_raw_def dict_get_def)

lemma ids_get_movies_of:
  "set (map m_id (get_movies_of data)) = raw_movie_id ` {r \<in> set data. file_present r}"
  by (auto simp: get_movies_of_eq m_id_spec_movie)

lemma get_movies_answered:
  "radarr_answers lib (radarr_requests lib) = Inr data \<Longrightarrow>
     get_movies lib = (Inr (get_movies_of data), lib\<lparr>radarr_requests := radarr_requests lib + 1\<rparr>)"
  by (simp add: get_movies_def and_then_def returns_def radarr_get_def)

lemma get_movies_failed:
  "radarr_answers lib (radarr_requests lib) = Inl e \<Longrightarrow>
     get_movies lib = (Inl e, lib\<lparr>radarr_requests := radarr_requests lib + 1\<rparr>)"
  by (simp add: get_movies_def and_then_def returns_def radarr_get_def)

text \<open>
  C3, as the claim states it, fails in one clause: the identifier of a skipped record
  can appear in the result. A record with identifier 0 and no file is skipped, and a
  record with a file and no identifier is materialized with the default identifier 0.
\<close>

theorem get_movies_skipped_id_counterexample:
  "rm_id no_file_id0_raw = Some 0
   \<and> rm_hasFile no_file_id0_raw = Some False
   \<and> map m_id (get_movies_of [no_file_id0_raw, no_id_movie_raw]) = [0]"
  by (simp add: get_movies_of_def no_file_id0_raw_def no_id_movie_raw_def dict_get_def)

text \<open>
  C3, amended. When the catalog answers with \<open>data\<close>, \<open>get_movies\<close> returns, in catalog
  order, one item for each raw record whose \<open>hasFile\<close> flag is present and true, built
  with the documented defaults and with \<open>has_file\<close> true; no item is built from a record
  without file. The identifiers in the result are exactly the identifiers (0 when
  absent) of the records with a file, so the identifier of a skipped record appears
  only when a record with a file carries the same identifier, and never when the
  identifiers are pairwise distinct after defaulting. The scenario of the specification
  yields exactly Movie A with ratings 8.5 and 0.0.
\<close>

theorem get_movies_keeps_records_with_file:
  "(radarr_answers lib (radarr_requests lib) = Inr data \<longrightarrow>
      fst (get_movies lib) = Inr (get_movies_of data))
   \<and> get_movies_of data = map spec_movie (filter file_present data)
   \<and> length (get_movies_of data) = length (filter file_present data)
   \<and> (\<forall>m \<in> set (get_movies_of data). has_file m)
   \<and> set (map m_id (get_movies_of data)) = raw_movie_id ` {r \<in> set data. file_present r}
   \<and> (distinct (map raw_movie_id data) \<longrightarrow>
        (\<forall>r \<in> set data. \<not> file_present r \<longrightarrow>
           raw_movie_id r \<notin> set (map m_id (get_movies_of data))))
   \<and> spec_movie \<lparr>rm_id = None, rm_title = None, rm_year = None, rm_genres = None,
        rm_runtime = None, rm_overview = None, rm_hasFile = Some True, rm_ratings = None\<rparr>
      = \<lparr>m_id = 0, m_title = ''Unknown'', m_year = 0, m_genres = [], m_runtime = 0,
         m_overview = '''', imdb_rating = 0, tmdb_rating = 0, has_file = True\<rparr>
   \<and> get_movies_of [movie_a_raw, no_file_raw] =
       [\<lparr>m_id = 1, m_title = ''Movie A'', m_year = 2020, m_genres = [''Action''],
         m_runtime = 0, m_overview = '''', imdb_rating = 17 / 2, tmdb_rating = 0,
         has_file = True\<rparr>]"
proof -
  have z: "radarr_answers lib (radarr_requests lib) = Inr data \<longrightarrow>
      fst (get_movies lib) = Inr (get_movies_of data)"
    by (simp add: get_movies_answered)
  have a: "get_movies_of data = map spec_movie (filter file_present data)"
    by (rule get_movies_of_eq)
  have b: "\<forall>m \<in> set (get_movies_of data). has_file m"
    by (auto simp: a spec_movie_def)
  have c: "distinct (map raw_movie_id data) \<longrightarrow>
        (\<forall>r \<in> set data. \<not> file_present r \<longrightarrow>
           raw_movie_id r \<notin> set (map m_id (get_movies_of data)))"
    using skipped_movie_id_absent by blast
  have d: "spec_movie \<lparr>rm_id = None, rm_title = None, rm_year = None, rm_genres = None,
        rm_runtime = None, rm_overview = None, rm_hasFile = Some True, rm_ratings = None\<rparr>
      = \<lparr>m_id = 0, m_title = ''Unknown'', m_year = 0, m_genres = [], m_runtime = 0,
         m_overview = '''', imdb_rating = 0, tmdb_rating = 0, has_file = True\<rparr>"
    by (simp add: spec_movie_def spec_imdb_def spec_tmdb_def)
  have e: "length (get_movies_of data) = length (filter file_present data)"
    by (simp add: a)
  show ?thesis
    by (intro conjI z a e b ids_get_movies_of c d scenario_movies)
qed

theorem get_movies_keeps_records_with_file_witness:
  "radarr_answers (new_library (\<lambda>n. Inr [movie_a_raw, no_file_raw]) (\<lambda>n. Inr []))
       (radarr_requests (new_library (\<lambda>n. Inr [movie_a_raw, no_file_raw]) (\<lambda>n. Inr [])))
     = Inr [movie_a_raw, no_file_raw]
   \<and> map m_title
        (case fst (get_movies (new_library (\<lambda>n. Inr [movie_a_raw, no_file_raw]) (\<lambda>n. Inr [])))
         of Inl e \<Rightarrow> [] | Inr ms \<Rightarrow> ms) = [''Movie A'']
   \<and> distinct (map raw_movie_id [movie_a_raw, no_file_raw])
   \<and> no_file_raw \<in> set [movie_a_raw, no_file_raw]
   \<and> \<not> file_present no_file_raw
   \<and> raw_movie_id no_file_raw \<notin> set (map m_id (get_movies_of [movie_a_raw, no_file_raw]))"
  using get_movies_keeps_records_with_file
    [of "new_library (\<lambda>n. Inr [movie_a_raw, no_file_raw]) (\<lambda>n. Inr [])"
        "[movie_a_raw, no_file_raw]"]
  by (simp add: new_library_def raw_movie_id_def movie_a_raw_def no_file_raw_def dict_get_def
      file_present_def spec_movie_def)

section \<open>Properties of \<open>get_series\<close>\<close>

lemma get_series_loop_acc:
  "get_series_loop data acc =
     acc @ map spec_series (filter (\<lambda>r. raw_episode_count r \<noteq> 0) data)"
proof (induction data arbitrary: acc)
  case Nil
  show ?case by simp
next
  case (Cons item data)
  show ?case
  proof (cases "raw_episode_count item = 0")
    case True
    then show ?thesis
      by (simp add: Cons.IH raw_episode_count_def Let_def)
  next
    case False
    then show ?thesis
      by (simp add: Cons.IH raw_episode_count_def dict_get_def spec_series_def Let_def
          split: option.splits)
  qed
qed

lemma get_series_of_eq:
  "get_series_of data = map spec_series (filter (\<lambda>r. raw_episode_count r \<noteq> 0) data)"
  by (simp add: get_series_of_def get_series_loop_acc)

lemma episode_count_spec_series: "episode_count (spec_series r) = int (raw_episode_count r)"
  by (simp add: spec_series_def raw_episode_count_def dict_get_def split: option.splits)

lemma s_id_spec_series: "s_id (spec_series r) = raw_series_id r"
  by (simp add: spec_series_def raw_series_id_def dict_get_def)

lemma skipped_series_id_absent:
  assumes "distinct (map raw_series_id data)" and "r \<in> set data"
    and "raw_episode_count r = 0"
  shows "raw_series_id r \<notin> set (map s_id (get_series_of data))"
proof
  assume "raw_series_id r \<in> set (map s_id (get_series_of data))"
  then obtain r' where r': "r' \<in> set data" "raw_episode_count r' \<noteq> 0"
      "raw_series_id r' = raw_series_id r"
    by (auto simp: get_series_of_eq s_id_spec_series)
  from assms(1) r'(1) assms(2) r'(3) have "r' = r"
    by (meson distinct_map inj_onD)
  with r'(2) assms(3) show False by simp
qed

lemma ids_get_series_of:
  "set (map s_id (get_series_of data))
     = raw_series_id ` {r \<in> set data. raw_episode_count r \<noteq> 0}"
  by (auto simp: get_series_of_eq s_id_spec_series)

lemma get_series_answered:
  "sonarr_answers lib (sonarr_requests lib) = Inr data \<Longrightarrow>
     get_series lib = (Inr (get_series_of data), lib\<lparr>sonarr_requests := sonarr_requests lib + 1\<rparr>)"
  by (simp add: get_series_def and_then_def returns_def sonarr_get_def)

lemma get_series_failed:
  "sonarr_answers lib (sonarr_requests lib) = Inl e \<Longrightarrow>
     get_series lib = (Inl e, lib\<lparr>sonarr_requests := sonarr_requests lib + 1\<rparr>)"
  by (simp add: get_series_def and_then_def returns_def sonarr_get_def)

text \<open>
  C4, as the claim states it, fails in one clause: the identifier of a skipped record
  can appear in the result. A record with identifier 0 and no episode files is skipped,
  and a record with three episode files and no identifier is materialized with the
  default identifier 0.
\<close>

theorem get_series_skipped_id_counterexample:
  "rs_id zero_count_id0_raw = Some 0
   \<and> rs_statistics zero_count_id0_raw = Some (Some 0)
   \<and> map s_id (get_series_of [zero_count_id0_raw, no_id_series_raw]) = [0]"
  by (simp add: get_series_of_def zero_count_id0_raw_def no_id_series_raw_def dict_get_def)

text \<open>
  C4, amended. When the catalog answers with \<open>data\<close>, every item \<open>get_series\<close> returns
  has a downloaded-episode count strictly greater than 0: the result is, in catalog
  order, one item for each raw record whose count is not 0, and a record that reports
  zero downloaded episodes is skipped. The identifiers in the result are exactly the
  identifiers (0 when absent) of the records that are not skipped, so the identifier of
  a skipped record appears only when a materialized record carries the same identifier,
  and never when the identifiers are pairwise distinct after defaulting.
\<close>

theorem get_series_skips_zero_counts:
  "(sonarr_answers lib (sonarr_requests lib) = Inr data \<longrightarrow>
      fst (get_series lib) = Inr (get_series_of data))
   \<and> (\<forall>s \<in> set (get_series_of data). 0 < episode_count s)
   \<and> get_series_of data = map spec_series (filter (\<lambda>r. raw_episode_count r \<noteq> 0) data)
   \<and> set (map s_id (get_series_of data))
       = raw_series_id ` {r \<in> set data. raw_episode_count r \<noteq> 0}
   \<and> (distinct (map raw_series_id data) \<longrightarrow>
        (\<forall>r \<in> set data. raw_episode_count r = 0 \<longrightarrow>
           raw_series_id r \<notin> set (map s_id (get_series_of data))))"
proof -
  have z: "sonarr_answers lib (sonarr_requests lib) = Inr data \<longrightarrow>
      fst (get_series lib) = Inr (get_series_of data)"
    by (simp add: get_series_answered)
  have a: "get_series_of data = map spec_series (filter (\<lambda>r. raw_episode_count r \<noteq> 0) data)"
    by (rule get_series_of_eq)
  have b: "\<forall>s \<in> set (get_series_of data). 0 < episode_count s"
    by (auto simp: a episode_count_spec_series)
  have c: "distinct (map raw_series_id data) \<longrightarrow>
        (\<forall>r \<in> set data. raw_episode_count r = 0 \<longrightarrow>
           raw_series_id r \<notin> set (map s_id (get_series_of data)))"
    using skipped_series_id_absent by blast
  show ?thesis
    by (intro conjI z b a ids_get_series_of c)
qed

theorem get_series_skips_zero_counts_witness:
  "sonarr_answers (new_library (\<lambda>n. Inr []) (\<lambda>n. Inr [zero_count_raw, show_x_raw]))
       (sonarr_requests (new_library (\<lambda>n. Inr []) (\<lambda>n. Inr [zero_count_raw, show_x_raw])))
     = Inr [zero_count_raw, show_x_raw]
   \<and> map episode_count
        (case fst (get_series (new_library (\<lambda>n. Inr []) (\<lambda>n. Inr [zero_count_raw, show_x_raw])))
         of Inl e \<Rightarrow> [] | Inr ss \<Rightarrow> ss) = [12]
   \<and> distinct (map raw_series_id [zero_count_raw, show_x_raw])
   \<and> zero_count_raw \<in> set [zero_count_raw, show_x_raw]
   \<and> raw_episode_count zero_count_raw = 0
   \<and> raw_series_id zero_count_raw \<notin> set (map s_id (get_series_of [zero_count_raw, show_x_raw]))"
  using get_series_skips_zero_counts
    [of "new_library (\<lambda>n. Inr []) (\<lambda>n. Inr [zero_count_raw, show_x_raw])"
        "[zero_count_raw, show_x_raw]"]
  by (simp add: new_library_def raw_series_id_def raw_episode_count_def zero_count_raw_def
      show_x_raw_def dict_get_def spec_series_def)

section \<open>Reading a populated cache\<close>

lemma movies_cached: "cached_movies lib = Some ms \<Longrightarrow> movies lib = (Inr ms, lib)"
  by (simp add: movies_def)

lemma series_cached: "cached_series lib = Some ss \<Longrightarrow> series lib = (Inr ss, lib)"
  by (simp add: series_def)

lemma anime_cached: "cached_series lib = Some ss \<Longrightarrow> anime lower lib = (Inr (anime_of lower ss), lib)"
  by (simp add: anime_def and_then_def returns_def series_cached)

lemma tv_shows_cached:
  "cached_series lib = Some ss \<Longrightarrow> tv_shows lower lib = (Inr (tv_shows_of lower ss), lib)"
  by (simp add: tv_shows_def and_then_def returns_def series_cached anime_cached
      tv_shows_of_def)

lemma get_media_summary_cached:
  assumes "cached_movies lib = Some ms" and "cached_series lib = Some ss"
  shows "get_media_summary lower lib =
     (Inr \<lparr>movies_rows = movie_table ms, movies_total = length ms,
           shows_rows = show_table (tv_shows_of lower ss),
           shows_total = length (tv_shows_of lower ss),
           anime_rows = anime_table lower (anime_of lower ss),
           anime_total = length (anime_of lower ss)\<rparr>,
      lib)"
  using assms
  by (simp add: get_media_summary_def and_then_def returns_def movies_cached
      tv_shows_cached anime_cached)

lemma get_genre_stats_cached:
  assumes "cached_movies lib = Some ms" and "cached_series lib = Some ss"
  shows "get_genre_stats lib = (Inr (genre_stats_of ms ss), lib)"
  using assms
  by (simp add: get_genre_stats_def and_then_def returns_def movies_cached series_cached
      genre_stats_of_def genre_counts_of_def)

lemma search_by_theme_cached:
  assumes "cached_movies lib = Some ms" and "cached_series lib = Some ss"
  shows "search_by_theme lower ks lib =
     (Inr (search_lists lower ms (tv_shows_of lower ss) (anime_of lower ss) ks), lib)"
  using assms
  by (simp add: search_by_theme_def and_then_def returns_def movies_cached
      tv_shows_cached anime_cached)

text \<open>A library whose two caches hold the given lists.\<close>

lemma cached_new_library:
  "cached_movies ((new_library ra sa)\<lparr>cached_movies := Some ms, cached_series := Some ss\<rparr>) = Some ms
   \<and> cached_series ((new_library ra sa)\<lparr>cached_movies := Some ms, cached_series := Some ss\<rparr>) = Some ss"
  by simp

section \<open>The genres cell of the anime table\<close>







lemma lower_Drama: "lower_ascii ''Drama'' = ''drama''"
  by code_simp


lemma anime_of_examples:
  "anime_of lower_ascii [four_genre_anime, plain_show] = [four_genre_anime]"
  by (simp add: anime_of_def anime_pred_def four_genre_anime_def plain_show_def lower_Drama)




section \<open>The anime and TV-show views partition the series\<close>

lemma tv_shows_of_filter:
  "tv_shows_of lower ss = filter (\<lambda>s. s_id s \<notin> s_id ` set (anime_of lower ss)) ss"
  by (simp add: tv_shows_of_def tv_shows_from_def)

lemma tv_show_id_not_anime:
  "t \<in> set (tv_shows_of lower ss) \<Longrightarrow> s_id t \<notin> s_id ` set (anime_of lower ss)"
  unfolding tv_shows_of_filter by simp

lemma partition_union:
  "s_id ` set (anime_of lower ss) \<union> s_id ` set (tv_shows_of lower ss) = s_id ` set ss"
  by (auto simp: tv_shows_of_filter anime_of_def)

lemma partition_disjoint:
  "s_id ` set (anime_of lower ss) \<inter> s_id ` set (tv_shows_of lower ss) = {}"
proof (rule ccontr)
  assume "s_id ` set (anime_of lower ss) \<inter> s_id ` set (tv_shows_of lower ss) \<noteq> {}"
  then obtain i where i: "i \<in> s_id ` set (anime_of lower ss)"
      "i \<in> s_id ` set (tv_shows_of lower ss)"
    by blast
  from i(2) obtain t where t: "t \<in> set (tv_shows_of lower ss)" "i = s_id t" by blast
  from tv_show_id_not_anime [OF t(1)] i(1) t(2) show False by simp
qed

lemma tv_shows_of_examples:
  "tv_shows_of lower_ascii [four_genre_anime, plain_show] = [plain_show]"
  by (simp add: tv_shows_of_def tv_shows_from_def anime_of_examples)
     (simp add: four_genre_anime_def plain_show_def)

text \<open>
  C2. With the series cache holding \<open>ss\<close>, the views \<open>anime\<close> and \<open>tv_shows\<close> return
  \<open>anime_of ss\<close> and \<open>tv_shows_of ss\<close> without touching the state; the identifiers of the
  two views together are the identifiers of \<open>ss\<close>, no identifier is in both, and
  \<open>tv_shows\<close> is computed from the identifiers of \<open>anime\<close>: it is the series whose
  identifier is not an identifier of an anime series.
\<close>

theorem anime_tv_shows_partition:
  "(cached_series lib = Some ss \<longrightarrow>
      anime lower lib = (Inr (anime_of lower ss), lib)
      \<and> tv_shows lower lib = (Inr (tv_shows_of lower ss), lib))
   \<and> s_id ` set (anime_of lower ss) \<union> s_id ` set (tv_shows_of lower ss) = s_id ` set ss
   \<and> s_id ` set (anime_of lower ss) \<inter> s_id ` set (tv_shows_of lower ss) = {}
   \<and> tv_shows_of lower ss = filter (\<lambda>s. s_id s \<notin> s_id ` set (anime_of lower ss)) ss"
proof -
  have a: "cached_series lib = Some ss \<longrightarrow>
      anime lower lib = (Inr (anime_of lower ss), lib)
      \<and> tv_shows lower lib = (Inr (tv_shows_of lower ss), lib)"
    by (simp add: anime_cached tv_shows_cached)
  show ?thesis
    by (intro conjI a partition_union partition_disjoint tv_shows_of_filter)
qed

theorem anime_tv_shows_partition_witness:
  "cached_series warm_library = Some [four_genre_anime, plain_show]
   \<and> anime lower_ascii warm_library = (Inr [four_genre_anime], warm_library)
   \<and> tv_shows lower_ascii warm_library = (Inr [plain_show], warm_library)
   \<and> s_id ` set [four_genre_anime] \<union> s_id ` set [plain_show] = {1, 2}"
proof -
  have c: "cached_series warm_library = Some [four_genre_anime, plain_show]"
    by (simp add: warm_library_def)
  have ids: "s_id ` set [four_genre_anime] \<union> s_id ` set [plain_show] = {1, 2}"
    by (simp add: four_genre_anime_def plain_show_def insert_commute)
  note p = anime_tv_shows_partition [of warm_library "[four_genre_anime, plain_show]" lower_ascii]
  from p c have "anime lower_ascii warm_library = (Inr [four_genre_anime], warm_library)"
    by (simp only: anime_of_examples)
  moreover from p c
  have "tv_shows lower_ascii warm_library = (Inr [plain_show], warm_library)"
    by (simp only: tv_shows_of_examples)
  ultimately show ?thesis using c ids by blast
qed

section \<open>Ranking: \<open>sorted(..., reverse=True)\<close>\<close>

lemma sorted_reverse_descending:
  "sorted_wrt (\<lambda>a b. key b \<le> key a) (sorted_reverse key xs)"
proof -
  have "sorted (map (\<lambda>x. - key x) (sort_key (\<lambda>x. - key x) xs))"
    by (rule sorted_sort_key)
  then show ?thesis
    by (simp add: sorted_reverse_def sorted_map)
qed

lemma sorted_reverse_stable:
  "filter (\<lambda>x. key x = k) (sorted_reverse key xs) = filter (\<lambda>x. key x = k) xs"
proof -
  have "filter (\<lambda>x. - key x = - k) (sort_key (\<lambda>x. - key x) xs)
        = filter (\<lambda>x. - key x = - k) xs"
    by (rule sort_key_stable)
  then show ?thesis
    by (simp add: sorted_reverse_def)
qed

lemma mset_sorted_reverse: "mset (sorted_reverse key xs) = mset xs"
  by (simp add: sorted_reverse_def)

lemma length_sorted_reverse: "length (sorted_reverse key xs) = length xs"
  by (simp add: sorted_reverse_def)

lemma set_sorted_reverse: "set (sorted_reverse key xs) = set xs"
  by (simp add: sorted_reverse_def)

section \<open>The movies table\<close>

lemma movie_key_eq: "movie_key m = imdb_rating m"
  by (simp add: movie_key_def)

lemma ranked_movies_descending:
  "sorted_wrt (\<lambda>a b. imdb_rating b \<le> imdb_rating a) (sorted_reverse movie_key ms)"
  using sorted_reverse_descending [of movie_key ms] by (simp add: movie_key_eq)

lemma ranked_movies_stable:
  "filter (\<lambda>m. imdb_rating m = r) (sorted_reverse movie_key ms)
     = filter (\<lambda>m. imdb_rating m = r) ms"
  using sorted_reverse_stable [of movie_key r ms] by (simp add: movie_key_eq)

lemma unrated_after_rated:
  "sorted_wrt (\<lambda>a b. imdb_rating a = 0 \<longrightarrow> imdb_rating b \<le> 0)
     (sorted_reverse movie_key ms)"
  by (rule sorted_wrt_mono_rel [OF _ ranked_movies_descending]) simp

lemma unrated_last:
  assumes "\<forall>m \<in> set ms. 0 \<le> imdb_rating m"
  shows "sorted_wrt (\<lambda>a b. imdb_rating a = 0 \<longrightarrow> imdb_rating b = 0)
     (sorted_reverse movie_key ms)"
proof (rule sorted_wrt_mono_rel [OF _ ranked_movies_descending])
  fix a b
  assume "a \<in> set (sorted_reverse movie_key ms)" and b: "b \<in> set (sorted_reverse movie_key ms)"
    and le: "imdb_rating b \<le> imdb_rating a"
  from b assms have "0 \<le> imdb_rating b" by (simp add: set_sorted_reverse)
  with le show "imdb_rating a = 0 \<longrightarrow> imdb_rating b = 0" by simp
qed

lemma ranked_example:
  "sorted_reverse movie_key [unrated_movie, first_seven, second_seven]
     = [first_seven, second_seven, unrated_movie]"
  by (simp add: sorted_reverse_def movie_key_def unrated_movie_def first_seven_def
      second_seven_def)

text \<open>
  C5. The Movies table of \<open>get_media_summary\<close> is built from the first 100 movies of the
  cached list ranked by \<open>imdb_rating or 0\<close>: it has \<open>min 100 (length ms)\<close> rows, so never
  more than 100; the ranked list is a rearrangement of the cached list, non-increasing
  in the imdb rating; the movies of any one rating keep the relative order they have in
  the cached list; a movie without rating (rating 0) never comes before a movie with a
  positive rating, and comes after every rated movie when ratings are in the data
  model's range (not negative).
\<close>

theorem movie_table_top_100_ranked:
  "(cached_movies lib = Some ms \<and> cached_series lib = Some ss \<longrightarrow>
      (\<exists>doc. get_media_summary lower lib = (Inr doc, lib) \<and> movies_rows doc = movie_table ms))
   \<and> movie_table ms = map movie_row (take 100 (sorted_reverse movie_key ms))
   \<and> length (movie_table ms) = min 100 (length ms)
   \<and> length (movie_table ms) \<le> 100
   \<and> mset (sorted_reverse movie_key ms) = mset ms
   \<and> sorted_wrt (\<lambda>a b. imdb_rating b \<le> imdb_rating a)
        (take 100 (sorted_reverse movie_key ms))
   \<and> filter (\<lambda>m. imdb_rating m = r) (sorted_reverse movie_key ms)
        = filter (\<lambda>m. imdb_rating m = r) ms
   \<and> sorted_wrt (\<lambda>a b. imdb_rating a = 0 \<longrightarrow> imdb_rating b \<le> 0)
        (sorted_reverse movie_key ms)
   \<and> ((\<forall>m \<in> set ms. 0 \<le> imdb_rating m) \<longrightarrow>
        sorted_wrt (\<lambda>a b. imdb_rating a = 0 \<longrightarrow> imdb_rating b = 0)
          (sorted_reverse movie_key ms))"
proof -
  have a: "cached_movies lib = Some ms \<and> cached_series lib = Some ss \<longrightarrow>
      (\<exists>doc. get_media_summary lower lib = (Inr doc, lib) \<and> movies_rows doc = movie_table ms)"
    by (simp add: get_media_summary_cached)
  have b: "movie_table ms = map movie_row (take 100 (sorted_reverse movie_key ms))"
    by (simp add: movie_table_def)
  have c: "length (movie_table ms) = min 100 (length ms)"
    by (simp add: movie_table_def length_sorted_reverse min.commute)
  have d: "length (movie_table ms) \<le> 100"
    by (simp add: c)
  have e: "sorted_wrt (\<lambda>a b. imdb_rating b \<le> imdb_rating a)
        (take 100 (sorted_reverse movie_key ms))"
    by (rule sorted_wrt_take [OF ranked_movies_descending])
  have f: "(\<forall>m \<in> set ms. 0 \<le> imdb_rating m) \<longrightarrow>
        sorted_wrt (\<lambda>a b. imdb_rating a = 0 \<longrightarrow> imdb_rating b = 0)
          (sorted_reverse movie_key ms)"
    using unrated_last by blast
  show ?thesis
    by (intro conjI a b c d e f mset_sorted_reverse ranked_movies_stable unrated_after_rated)
qed

theorem movie_table_top_100_ranked_witness:
  "cached_movies (warm_library\<lparr>cached_movies := Some [unrated_movie, first_seven, second_seven]\<rparr>)
     = Some [unrated_movie, first_seven, second_seven]
   \<and> cached_series (warm_library\<lparr>cached_movies := Some [unrated_movie, first_seven, second_seven]\<rparr>)
     = Some [four_genre_anime, plain_show]
   \<and> 0 \<le> imdb_rating unrated_movie \<and> 0 \<le> imdb_rating first_seven
   \<and> 0 \<le> imdb_rating second_seven
   \<and> map row_title (movie_table [unrated_movie, first_seven, second_seven])
       = [''Movie S'', ''Movie T'', ''Movie U'']
   \<and> length (movie_table (replicate 101 first_seven)) = 100"
proof -
  let ?ms = "[unrated_movie, first_seven, second_seven]"
  let ?lib = "warm_library\<lparr>cached_movies := Some ?ms\<rparr>"
  note t = movie_table_top_100_ranked [of ?lib ?ms "[four_genre_anime, plain_show]" lower_ascii 7]
  note u = movie_table_top_100_ranked [of ?lib "replicate 101 first_seven" "[]" lower_ascii 7]
  have c: "cached_movies ?lib = Some ?ms \<and> cached_series ?lib = Some [four_genre_anime, plain_show]"
    by (simp add: warm_library_def)
  have r: "0 \<le> imdb_rating unrated_movie \<and> 0 \<le> imdb_rating first_seven
      \<and> 0 \<le> imdb_rating second_seven"
    by (simp add: unrated_movie_def first_seven_def second_seven_def)
  from t have "movie_table ?ms = map movie_row (take 100 (sorted_reverse movie_key ?ms))"
    by blast
  then have rows: "map row_title (movie_table ?ms) = [''Movie S'', ''Movie T'', ''Movie U'']"
    by (simp add: ranked_example movie_row_def)
       (simp add: unrated_movie_def first_seven_def second_seven_def)
  from u have "length (movie_table (replicate 101 first_seven))
      = min 100 (length (replicate 101 first_seven))"
    by blast
  then have len: "length (movie_table (replicate 101 first_seven)) = 100"
    by simp
  from c r rows len show ?thesis by blast
qed

section \<open>Genre statistics\<close>

lemma keys_count_genre:
  "map fst (count_genre g cs) = (if g \<in> set (map fst cs) then map fst cs else map fst cs @ [g])"
  by (induction g cs rule: count_genre.induct) auto

lemma total_count_genre:
  "sum_list (map snd (count_genre g cs)) = sum_list (map snd cs) + 1"
  by (induction g cs rule: count_genre.induct) auto

lemma keys_fold_count_genre:
  "map fst (fold count_genre gs cs)
     = map fst cs @ filter (\<lambda>g. g \<notin> set (map fst cs)) (first_seen gs)"
proof (induction gs arbitrary: cs)
  case Nil
  show ?case by simp
next
  case (Cons g gs)
  show ?case
  proof (cases "g \<in> set (map fst cs)")
    case True
    have "filter (\<lambda>h. h \<notin> set (map fst cs)) (filter (\<lambda>h. h \<noteq> g) (first_seen gs))
          = filter (\<lambda>h. h \<notin> set (map fst cs)) (first_seen gs)"
      using True by (auto intro: filter_cong)
    with True show ?thesis
      by (simp add: Cons.IH keys_count_genre)
  next
    case False
    have "filter (\<lambda>h. h \<notin> set (map fst cs @ [g])) (first_seen gs)
          = filter (\<lambda>h. h \<notin> set (map fst cs)) (filter (\<lambda>h. h \<noteq> g) (first_seen gs))"
      by (auto intro: filter_cong)
    with False show ?thesis
      by (simp add: Cons.IH keys_count_genre)
  qed
qed

lemma total_fold_count_genre:
  "sum_list (map snd (fold count_genre gs cs)) = sum_list (map snd cs) + int (length gs)"
  by (induction gs arbitrary: cs) (simp_all add: total_count_genre)

lemma fold_genres_concat:
  "fold (\<lambda>x gc. fold count_genre (f x) gc) xs cs = fold count_genre (concat (map f xs)) cs"
  by (induction xs arbitrary: cs) simp_all

lemma genre_counts_of_fold:
  "genre_counts_of ms ss = fold count_genre (scanned_genres ms ss) []"
  by (simp add: genre_counts_of_def count_series_def count_movies_def scanned_genres_def
      fold_genres_concat)

lemma keys_genre_counts: "map fst (genre_counts_of ms ss) = first_seen (scanned_genres ms ss)"
  by (simp add: genre_counts_of_fold keys_fold_count_genre)

lemma total_genre_counts:
  "sum_list (map snd (genre_counts_of ms ss)) = int (length (scanned_genres ms ss))"
  by (simp add: genre_counts_of_fold total_fold_count_genre)

lemma total_genre_stats:
  "sum_list (map snd (genre_stats_of ms ss)) = int (length (scanned_genres ms ss))"
proof -
  have "mset (map snd (genre_stats_of ms ss)) = mset (map snd (genre_counts_of ms ss))"
    by (simp add: genre_stats_of_def mset_sorted_reverse)
  then have "sum_list (map snd (genre_stats_of ms ss))
      = sum_list (map snd (genre_counts_of ms ss))"
    by (metis sum_mset_sum_list)
  then show ?thesis by (simp add: total_genre_counts)
qed

lemma pairs_scanned:
  "length (scanned_genres ms ss)
     = sum_list (map (\<lambda>m. length (m_genres m)) ms) + sum_list (map (\<lambda>s. length (s_genres s)) ss)"
  by (simp add: scanned_genres_def length_concat comp_def)

lemma distinct_first_seen: "distinct (first_seen gs)"
  by (induction gs) simp_all

lemma set_first_seen: "set (first_seen gs) = set gs"
  by (induction gs) auto

lemma map_of_count_genre:
  "map_of (count_genre g cs) h
     = (if h = g then Some (dict_get (map_of cs g) 0 + 1) else map_of cs h)"
  by (induction g cs rule: count_genre.induct) (auto simp: dict_get_def)

lemma map_of_fold_count_genre:
  "map_of (fold count_genre gs cs) h
     = (if h \<in> set gs then Some (dict_get (map_of cs h) 0 + int (count_list gs h))
        else map_of cs h)"
proof (induction gs arbitrary: cs)
  case Nil
  show ?case by simp
next
  case (Cons g gs)
  show ?case
    by (simp add: Cons.IH map_of_count_genre dict_get_def)
qed

lemma map_of_genre_counts:
  "map_of (genre_counts_of ms ss) h
     = (if h \<in> set (scanned_genres ms ss)
        then Some (int (count_list (scanned_genres ms ss) h)) else None)"
  by (simp add: genre_counts_of_fold map_of_fold_count_genre dict_get_def)

lemma distinct_genre_counts: "distinct (map fst (genre_counts_of ms ss))"
  by (simp add: keys_genre_counts distinct_first_seen)

lemma genre_counts_explicit:
  "genre_counts_of ms ss
     = map (\<lambda>g. (g, int (count_list (scanned_genres ms ss) g)))
         (first_seen (scanned_genres ms ss))"
proof -
  let ?cs = "genre_counts_of ms ss"
  let ?f = "\<lambda>g. (g, int (count_list (scanned_genres ms ss) g))"
  have "\<forall>p \<in> set ?cs. ?f (fst p) = p"
  proof
    fix p assume p: "p \<in> set ?cs"
    then have "map_of ?cs (fst p) = Some (snd p)"
      using distinct_genre_counts [of ms ss] by simp
    then have "snd p = int (count_list (scanned_genres ms ss) (fst p))"
      by (simp add: map_of_genre_counts split: if_splits)
    then show "?f (fst p) = p" by (cases p) simp
  qed
  then have "map (\<lambda>p. ?f (fst p)) ?cs = ?cs"
    by (simp add: map_idI)
  then have "map ?f (map fst ?cs) = ?cs"
    by (simp add: comp_def)
  then show ?thesis
    by (simp add: keys_genre_counts)
qed

lemma genre_stats_descending:
  "sorted_wrt (\<lambda>a b. snd b \<le> snd a) (genre_stats_of ms ss)"
  unfolding genre_stats_of_def by (rule sorted_reverse_descending)

lemma genre_stats_ties:
  "map fst (filter (\<lambda>p. snd p = c) (genre_stats_of ms ss))
     = filter (\<lambda>g. int (count_list (scanned_genres ms ss) g) = c)
         (first_seen (scanned_genres ms ss))"
proof -
  have "filter (\<lambda>p. snd p = c) (genre_stats_of ms ss)
        = filter (\<lambda>p. snd p = c) (genre_counts_of ms ss)"
    unfolding genre_stats_of_def by (rule sorted_reverse_stable)
  then show ?thesis
    by (simp add: genre_counts_explicit filter_map comp_def)
qed

lemma set_genre_stats:
  "set (genre_stats_of ms ss)
     = (\<lambda>g. (g, int (count_list (scanned_genres ms ss) g))) ` set (scanned_genres ms ss)"
proof -
  have "set (genre_stats_of ms ss) = set (genre_counts_of ms ss)"
    by (simp add: genre_stats_of_def set_sorted_reverse)
  then show ?thesis
    by (simp add: genre_counts_explicit set_first_seen)
qed

lemma distinct_genre_stats: "distinct (map fst (genre_stats_of ms ss))"
proof -
  have "mset (map fst (genre_stats_of ms ss)) = mset (map fst (genre_counts_of ms ss))"
    by (simp add: genre_stats_of_def mset_sorted_reverse)
  then show ?thesis
    using distinct_genre_counts [of ms ss] by (metis mset_eq_imp_distinct_iff)
qed

lemma genre_stats_example:
  "genre_stats_of [second_seven, first_seven] [four_genre_anime, plain_show]
     = [(''Drama'', 4), (''Action'', 2), (''Anime'', 1), (''Comedy'', 1)]"
  by (simp add: genre_stats_of_def genre_counts_of_def count_movies_def count_series_def
      sorted_reverse_def second_seven_def first_seven_def four_genre_anime_def plain_show_def)

text \<open>
  C6. With the caches holding \<open>ms\<close> and \<open>ss\<close>, \<open>get_genre_stats\<close> returns the mapping
  \<open>genre_stats_of ms ss\<close>, one entry per genre. Its counts are non-increasing; they add
  up to the number of (item, genre) pairs, the length of the list of genres met when
  scanning the movies and then the series, every item contributing each genre it
  carries; each genre is mapped to its number of occurrences in that scan; and the
  genres of any one count appear in the order in which the scan first met them.
\<close>

theorem genre_stats_sorted_total_ties:
  "(cached_movies lib = Some ms \<and> cached_series lib = Some ss \<longrightarrow>
      get_genre_stats lib = (Inr (genre_stats_of ms ss), lib))
   \<and> sorted_wrt (\<lambda>a b. snd b \<le> snd a) (genre_stats_of ms ss)
   \<and> sum_list (map snd (genre_stats_of ms ss)) = int (length (scanned_genres ms ss))
   \<and> length (scanned_genres ms ss)
       = sum_list (map (\<lambda>m. length (m_genres m)) ms)
         + sum_list (map (\<lambda>s. length (s_genres s)) ss)
   \<and> distinct (map fst (genre_stats_of ms ss))
   \<and> set (genre_stats_of ms ss)
       = (\<lambda>g. (g, int (count_list (scanned_genres ms ss) g))) ` set (scanned_genres ms ss)
   \<and> map fst (filter (\<lambda>p. snd p = c) (genre_stats_of ms ss))
       = filter (\<lambda>g. int (count_list (scanned_genres ms ss) g) = c)
           (first_seen (scanned_genres ms ss))"
proof -
  have a: "cached_movies lib = Some ms \<and> cached_series lib = Some ss \<longrightarrow>
      get_genre_stats lib = (Inr (genre_stats_of ms ss), lib)"
    by (simp add: get_genre_stats_cached)
  show ?thesis
    by (intro conjI a genre_stats_descending total_genre_stats pairs_scanned
        distinct_genre_stats set_genre_stats genre_stats_ties)
qed

theorem genre_stats_sorted_total_ties_witness:
  "cached_movies (warm_library\<lparr>cached_movies := Some [second_seven, first_seven]\<rparr>)
     = Some [second_seven, first_seven]
   \<and> cached_series (warm_library\<lparr>cached_movies := Some [second_seven, first_seven]\<rparr>)
     = Some [four_genre_anime, plain_show]
   \<and> fst (get_genre_stats (warm_library\<lparr>cached_movies := Some [second_seven, first_seven]\<rparr>))
     = Inr [(''Drama'', 4), (''Action'', 2), (''Anime'', 1), (''Comedy'', 1)]
   \<and> length (scanned_genres [second_seven, first_seven] [four_genre_anime, plain_show]) = 8"
proof -
  let ?lib = "warm_library\<lparr>cached_movies := Some [second_seven, first_seven]\<rparr>"
  note t = genre_stats_sorted_total_ties
    [of ?lib "[second_seven, first_seven]" "[four_genre_anime, plain_show]" 1]
  have c: "cached_movies ?lib = Some [second_seven, first_seven]
      \<and> cached_series ?lib = Some [four_genre_anime, plain_show]"
    by (simp add: warm_library_def)
  from t c have "get_genre_stats ?lib
      = (Inr (genre_stats_of [second_seven, first_seven] [four_genre_anime, plain_show]), ?lib)"
    by blast
  then have r: "fst (get_genre_stats ?lib)
      = Inr [(''Drama'', 4), (''Action'', 2), (''Anime'', 1), (''Comedy'', 1)]"
    by (simp only: genre_stats_example fst_conv)
  from t have "sum_list (map snd
        (genre_stats_of [second_seven, first_seven] [four_genre_anime, plain_show]))
      = int (length (scanned_genres [second_seven, first_seven] [four_genre_anime, plain_show]))"
    by blast
  then have l: "length (scanned_genres [second_seven, first_seven]
      [four_genre_anime, plain_show]) = 8"
    by (simp add: genre_stats_example)
  from c r l show ?thesis by blast
qed

section \<open>The caches: one fetch each, then frozen\<close>

lemma movies_fetch_ok:
  assumes "cached_movies lib = None" and "radarr_answers lib (radarr_requests lib) = Inr data"
  shows "movies lib =
     (Inr (get_movies_of data),
      lib\<lparr>radarr_requests := radarr_requests lib + 1,
          cached_movies := Some (get_movies_of data)\<rparr>)"
  using assms by (simp add: movies_def and_then_def get_movies_answered)

lemma movies_fetch_failed:
  assumes "cached_movies lib = None" and "radarr_answers lib (radarr_requests lib) = Inl e"
  shows "movies lib = (Inl e, lib\<lparr>radarr_requests := radarr_requests lib + 1\<rparr>)"
  using assms by (simp add: movies_def and_then_def get_movies_failed)

lemma series_fetch_ok:
  assumes "cached_series lib = None" and "sonarr_answers lib (sonarr_requests lib) = Inr data"
  shows "series lib =
     (Inr (get_series_of data),
      lib\<lparr>sonarr_requests := sonarr_requests lib + 1,
          cached_series := Some (get_series_of data)\<rparr>)"
  using assms by (simp add: series_def and_then_def get_series_answered)

lemma series_fetch_failed:
  assumes "cached_series lib = None" and "sonarr_answers lib (sonarr_requests lib) = Inl e"
  shows "series lib = (Inl e, lib\<lparr>sonarr_requests := sonarr_requests lib + 1\<rparr>)"
  using assms by (simp add: series_def and_then_def get_series_failed)

text \<open>The three ways a read of \<open>movies\<close> can go, and the same for \<open>series\<close>.\<close>

lemma movies_cases:
  obtains (cached) ms where "cached_movies lib = Some ms" "movies lib = (Inr ms, lib)"
  | (fetched) data where "cached_movies lib = None"
      "radarr_answers lib (radarr_requests lib) = Inr data"
      "movies lib = (Inr (get_movies_of data),
         lib\<lparr>radarr_requests := radarr_requests lib + 1,
             cached_movies := Some (get_movies_of data)\<rparr>)"
  | (failed) e where "cached_movies lib = None"
      "radarr_answers lib (radarr_requests lib) = Inl e"
      "movies lib = (Inl e, lib\<lparr>radarr_requests := radarr_requests lib + 1\<rparr>)"
proof (cases "cached_movies lib")
  case (Some ms)
  then show ?thesis using cached movies_cached by blast
next
  case None
  show ?thesis
  proof (cases "radarr_answers lib (radarr_requests lib)")
    case (Inl e)
    with None show ?thesis using failed movies_fetch_failed by blast
  next
    case (Inr data)
    with None show ?thesis using fetched movies_fetch_ok by blast
  qed
qed

lemma series_cases:
  obtains (cached) ss where "cached_series lib = Some ss" "series lib = (Inr ss, lib)"
  | (fetched) data where "cached_series lib = None"
      "sonarr_answers lib (sonarr_requests lib) = Inr data"
      "series lib = (Inr (get_series_of data),
         lib\<lparr>sonarr_requests := sonarr_requests lib + 1,
             cached_series := Some (get_series_of data)\<rparr>)"
  | (failed) e where "cached_series lib = None"
      "sonarr_answers lib (sonarr_requests lib) = Inl e"
      "series lib = (Inl e, lib\<lparr>sonarr_requests := sonarr_requests lib + 1\<rparr>)"
proof (cases "cached_series lib")
  case (Some ss)
  then show ?thesis using cached series_cached by blast
next
  case None
  show ?thesis
  proof (cases "sonarr_answers lib (sonarr_requests lib)")
    case (Inl e)
    with None show ?thesis using failed series_fetch_failed by blast
  next
    case (Inr data)
    with None show ?thesis using fetched series_fetch_ok by blast
  qed
qed

subsection \<open>Properties kept by every action\<close>

lemma keeps_returns: "keeps P (returns x)"
  by (simp add: keeps_def returns_def)

lemma keeps_and_then:
  assumes "keeps P m" and "\<And>x. keeps P (f x)"
  shows "keeps P (and_then m f)"
proof (unfold keeps_def, intro allI impI)
  fix lib assume P: "P lib"
  obtain r lib' where m: "m lib = (r, lib')" by (cases "m lib")
  from assms(1) P m have P': "P lib'" by (auto simp: keeps_def)
  show "P (snd (and_then m f lib))"
  proof (cases r)
    case (Inl e)
    with m P' show ?thesis by (simp add: and_then_def)
  next
    case (Inr x)
    from assms(2) [of x] P' have "P (snd (f x lib'))" by (simp add: keeps_def)
    with m Inr show ?thesis by (simp add: and_then_def)
  qed
qed

lemma keeps_anime: "keeps P series \<Longrightarrow> keeps P (anime lower)"
  unfolding anime_def by (intro keeps_and_then keeps_returns)

lemma keeps_tv_shows: "keeps P series \<Longrightarrow> keeps P (tv_shows lower)"
  unfolding tv_shows_def by (intro keeps_and_then keeps_returns keeps_anime)

lemma keeps_get_media_summary:
  "keeps P movies \<Longrightarrow> keeps P series \<Longrightarrow> keeps P (get_media_summary lower)"
  unfolding get_media_summary_def
  by (intro keeps_and_then keeps_returns keeps_anime keeps_tv_shows)

lemma keeps_get_genre_stats:
  "keeps P movies \<Longrightarrow> keeps P series \<Longrightarrow> keeps P get_genre_stats"
  unfolding get_genre_stats_def by (intro keeps_and_then keeps_returns)

lemma keeps_search_by_theme:
  "keeps P movies \<Longrightarrow> keeps P series \<Longrightarrow> keeps P (search_by_theme lower ks)"
  unfolding search_by_theme_def
  by (intro keeps_and_then keeps_returns keeps_anime keeps_tv_shows)

lemma keeps_call:
  assumes "keeps P movies" and "keeps P series" and "P lib"
  shows "P (call lower r lib)"
proof (cases r)
  case Movies
  with assms show ?thesis by (simp add: keeps_def)
next
  case Series
  with assms show ?thesis by (simp add: keeps_def)
next
  case Anime
  with keeps_anime [OF assms(2), of lower] assms(3) show ?thesis by (simp add: keeps_def)
next
  case TvShows
  with keeps_tv_shows [OF assms(2), of lower] assms(3) show ?thesis by (simp add: keeps_def)
next
  case GetMediaSummary
  with keeps_get_media_summary [OF assms(1,2), of lower] assms(3) show ?thesis
    by (simp add: keeps_def)
next
  case GetGenreStats
  with keeps_get_genre_stats [OF assms(1,2)] assms(3) show ?thesis by (simp add: keeps_def)
next
  case (SearchByTheme ks)
  with keeps_search_by_theme [OF assms(1,2), of lower ks] assms(3) show ?thesis
    by (simp add: keeps_def)
qed

lemma keeps_calls:
  assumes "keeps P movies" and "keeps P series"
  shows "P lib \<Longrightarrow> P (calls lower rs lib)"
proof (induction rs arbitrary: lib)
  case Nil
  then show ?case by (simp add: calls_def)
next
  case (Cons r rs)
  from keeps_call [OF assms Cons.prems, of lower r] have "P (call lower r lib)" .
  from Cons.IH [OF this] show ?case by (simp add: calls_def)
qed


lemma radarr_fetched_request:
  "radarr_fetched (lib\<lparr>radarr_requests := radarr_requests lib + 1\<rparr>)
     = radarr_fetched lib + (if succeeded (radarr_answers lib (radarr_requests lib)) then 1 else 0)"
  by (simp add: radarr_fetched_def)

lemma sonarr_fetched_request:
  "sonarr_fetched (lib\<lparr>sonarr_requests := sonarr_requests lib + 1\<rparr>)
     = sonarr_fetched lib + (if succeeded (sonarr_answers lib (sonarr_requests lib)) then 1 else 0)"
  by (simp add: sonarr_fetched_def)

lemma keeps_movies_consistent_movies: "keeps movies_cache_consistent movies"
proof (unfold keeps_def, intro allI impI)
  fix lib assume c: "movies_cache_consistent lib"
  show "movies_cache_consistent (snd (movies lib))"
  proof (cases lib rule: movies_cases)
    case (cached ms)
    with c show ?thesis by simp
  next
    case (fetched data)
    with c show ?thesis
      by (simp add: movies_cache_consistent_def radarr_fetched_def succeeded_def)
  next
    case (failed e)
    with c show ?thesis
      by (simp add: movies_cache_consistent_def radarr_fetched_def succeeded_def)
  qed
qed

lemma keeps_movies_consistent_series: "keeps movies_cache_consistent series"
proof (unfold keeps_def, intro allI impI)
  fix lib assume c: "movies_cache_consistent lib"
  show "movies_cache_consistent (snd (series lib))"
  proof (cases lib rule: series_cases)
    case (cached ss)
    with c show ?thesis by simp
  next
    case (fetched data)
    with c show ?thesis
      by (simp add: movies_cache_consistent_def radarr_fetched_def split: option.splits)
  next
    case (failed e)
    with c show ?thesis
      by (simp add: movies_cache_consistent_def radarr_fetched_def split: option.splits)
  qed
qed

lemma keeps_series_consistent_series: "keeps series_cache_consistent series"
proof (unfold keeps_def, intro allI impI)
  fix lib assume c: "series_cache_consistent lib"
  show "series_cache_consistent (snd (series lib))"
  proof (cases lib rule: series_cases)
    case (cached ss)
    with c show ?thesis by simp
  next
    case (fetched data)
    with c show ?thesis
      by (simp add: series_cache_consistent_def sonarr_fetched_def succeeded_def)
  next
    case (failed e)
    with c show ?thesis
      by (simp add: series_cache_consistent_def sonarr_fetched_def succeeded_def)
  qed
qed

lemma keeps_series_consistent_movies: "keeps series_cache_consistent movies"
proof (unfold keeps_def, intro allI impI)
  fix lib assume c: "series_cache_consistent lib"
  show "series_cache_consistent (snd (movies lib))"
  proof (cases lib rule: movies_cases)
    case (cached ms)
    with c show ?thesis by simp
  next
    case (fetched data)
    with c show ?thesis
      by (simp add: series_cache_consistent_def sonarr_fetched_def split: option.splits)
  next
    case (failed e)
    with c show ?thesis
      by (simp add: series_cache_consistent_def sonarr_fetched_def split: option.splits)
  qed
qed

text \<open>A populated cache, the count of requests and the services stay as they are.\<close>

lemma keeps_movies_frozen_movies:
  "keeps (\<lambda>l. cached_movies l = Some ms \<and> radarr_requests l = n) movies"
  by (simp add: keeps_def movies_cached)

lemma keeps_movies_frozen_series:
  "keeps (\<lambda>l. cached_movies l = Some ms \<and> radarr_requests l = n) series"
proof (unfold keeps_def, intro allI impI)
  fix lib :: library assume c: "cached_movies lib = Some ms \<and> radarr_requests lib = n"
  show "cached_movies (snd (series lib)) = Some ms \<and> radarr_requests (snd (series lib)) = n"
    by (cases lib rule: series_cases) (use c in simp_all)
qed

lemma keeps_series_frozen_series:
  "keeps (\<lambda>l. cached_series l = Some ss \<and> sonarr_requests l = n) series"
  by (simp add: keeps_def series_cached)

lemma keeps_series_frozen_movies:
  "keeps (\<lambda>l. cached_series l = Some ss \<and> sonarr_requests l = n) movies"
proof (unfold keeps_def, intro allI impI)
  fix lib :: library assume c: "cached_series lib = Some ss \<and> sonarr_requests lib = n"
  show "cached_series (snd (movies lib)) = Some ss \<and> sonarr_requests (snd (movies lib)) = n"
    by (cases lib rule: movies_cases) (use c in simp_all)
qed

lemma keeps_same_services_movies: "keeps (same_services lib0) movies"
proof (unfold keeps_def, intro allI impI)
  fix lib assume c: "same_services lib0 lib"
  show "same_services lib0 (snd (movies lib))"
    by (cases lib rule: movies_cases) (use c in \<open>simp_all add: same_services_def\<close>)
qed

lemma keeps_same_services_series: "keeps (same_services lib0) series"
proof (unfold keeps_def, intro allI impI)
  fix lib assume c: "same_services lib0 lib"
  show "same_services lib0 (snd (series lib))"
    by (cases lib rule: series_cases) (use c in \<open>simp_all add: same_services_def\<close>)
qed

lemma new_library_consistent:
  "movies_cache_consistent (new_library ra sa) \<and> series_cache_consistent (new_library ra sa)"
  by (simp add: movies_cache_consistent_def series_cache_consistent_def new_library_def
      radarr_fetched_def sonarr_fetched_def)

lemma movies_returned_is_cached:
  "fst (movies lib) = Inr ms \<Longrightarrow> cached_movies (snd (movies lib)) = Some ms"
  by (cases lib rule: movies_cases) simp_all

lemma series_returned_is_cached:
  "fst (series lib) = Inr ss \<Longrightarrow> cached_series (snd (series lib)) = Some ss"
  by (cases lib rule: series_cases) simp_all

lemma movies_frozen:
  assumes "cached_movies lib = Some ms"
  shows "cached_movies (calls lower rs lib) = Some ms
     \<and> radarr_requests (calls lower rs lib) = radarr_requests lib"
  using keeps_calls
    [of "\<lambda>l. cached_movies l = Some ms \<and> radarr_requests l = radarr_requests lib" lib lower rs,
     OF keeps_movies_frozen_movies keeps_movies_frozen_series]
    assms
  by simp

lemma series_frozen:
  assumes "cached_series lib = Some ss"
  shows "cached_series (calls lower rs lib) = Some ss
     \<and> sonarr_requests (calls lower rs lib) = sonarr_requests lib"
  using keeps_calls
    [of "\<lambda>l. cached_series l = Some ss \<and> sonarr_requests l = sonarr_requests lib" lib lower rs,
     OF keeps_series_frozen_movies keeps_series_frozen_series]
    assms
  by simp

lemma services_fixed: "same_services lib (calls lower rs lib)"
  using keeps_calls [of "same_services lib" lib lower rs,
      OF keeps_same_services_movies keeps_same_services_series]
  by (simp add: same_services_def)

lemma consistent_after_calls:
  "movies_cache_consistent (calls lower rs (new_library ra sa))
   \<and> series_cache_consistent (calls lower rs (new_library ra sa))"
  using keeps_calls [of movies_cache_consistent "new_library ra sa" lower rs,
      OF keeps_movies_consistent_movies keeps_movies_consistent_series]
    keeps_calls [of series_cache_consistent "new_library ra sa" lower rs,
      OF keeps_series_consistent_movies keeps_series_consistent_series]
    new_library_consistent [of ra sa]
  by blast

lemma fetched_at_most_once:
  "radarr_fetched (calls lower rs (new_library ra sa)) \<le> 1
   \<and> sonarr_fetched (calls lower rs (new_library ra sa)) \<le> 1"
  using consistent_after_calls [of lower rs ra sa]
  by (auto simp: movies_cache_consistent_def series_cache_consistent_def split: option.splits)

lemma fetched_iff_cached:
  "(radarr_fetched (calls lower rs (new_library ra sa)) = 1)
     = (cached_movies (calls lower rs (new_library ra sa)) \<noteq> None)
   \<and> (sonarr_fetched (calls lower rs (new_library ra sa)) = 1)
     = (cached_series (calls lower rs (new_library ra sa)) \<noteq> None)"
  using consistent_after_calls [of lower rs ra sa]
  by (auto simp: movies_cache_consistent_def series_cache_consistent_def split: option.splits)

text \<open>
  C8. Over the lifetime of a library, from its construction through any sequence of
  reads and method calls, at most one request to each catalog is answered with a
  catalog, and a cache is populated exactly when one was. Once the movie cache holds a
  list, every later state holds the same list, no further request goes to the movie
  catalog, and a read of \<open>movies\<close> returns that list and leaves the state as it is; so
  every read after the first one that returned gives the list that one returned. The
  same holds for the series cache, whatever the calls in between are.
\<close>

theorem caches_fetched_once_then_frozen:
  "radarr_fetched (calls lower rs (new_library ra sa)) \<le> 1
   \<and> sonarr_fetched (calls lower rs (new_library ra sa)) \<le> 1
   \<and> (radarr_fetched (calls lower rs (new_library ra sa)) = 1)
       = (cached_movies (calls lower rs (new_library ra sa)) \<noteq> None)
   \<and> (sonarr_fetched (calls lower rs (new_library ra sa)) = 1)
       = (cached_series (calls lower rs (new_library ra sa)) \<noteq> None)
   \<and> (cached_movies lib = Some ms \<longrightarrow>
        cached_movies (calls lower rs lib) = Some ms
        \<and> radarr_requests (calls lower rs lib) = radarr_requests lib
        \<and> movies (calls lower rs lib) = (Inr ms, calls lower rs lib))
   \<and> (cached_series lib = Some ss \<longrightarrow>
        cached_series (calls lower rs lib) = Some ss
        \<and> sonarr_requests (calls lower rs lib) = sonarr_requests lib
        \<and> series (calls lower rs lib) = (Inr ss, calls lower rs lib))
   \<and> (fst (movies lib) = Inr ms \<longrightarrow>
        movies (calls lower rs (snd (movies lib)))
          = (Inr ms, calls lower rs (snd (movies lib)))
        \<and> radarr_requests (calls lower rs (snd (movies lib)))
          = radarr_requests (snd (movies lib)))
   \<and> (fst (series lib) = Inr ss \<longrightarrow>
        series (calls lower rs (snd (series lib)))
          = (Inr ss, calls lower rs (snd (series lib)))
        \<and> sonarr_requests (calls lower rs (snd (series lib)))
          = sonarr_requests (snd (series lib)))
   \<and> radarr_answers (calls lower rs lib) = radarr_answers lib
   \<and> sonarr_answers (calls lower rs lib) = sonarr_answers lib"
proof -
  have m: "cached_movies lib = Some ms \<longrightarrow>
        cached_movies (calls lower rs lib) = Some ms
        \<and> radarr_requests (calls lower rs lib) = radarr_requests lib
        \<and> movies (calls lower rs lib) = (Inr ms, calls lower rs lib)"
    using movies_frozen [of lib ms lower rs] movies_cached by blast
  have s: "cached_series lib = Some ss \<longrightarrow>
        cached_series (calls lower rs lib) = Some ss
        \<and> sonarr_requests (calls lower rs lib) = sonarr_requests lib
        \<and> series (calls lower rs lib) = (Inr ss, calls lower rs lib)"
    using series_frozen [of lib ss lower rs] series_cached by blast
  have m': "fst (movies lib) = Inr ms \<longrightarrow>
        movies (calls lower rs (snd (movies lib)))
          = (Inr ms, calls lower rs (snd (movies lib)))
        \<and> radarr_requests (calls lower rs (snd (movies lib)))
          = radarr_requests (snd (movies lib))"
    using movies_returned_is_cached [of lib ms]
      movies_frozen [of "snd (movies lib)" ms lower rs] movies_cached
    by blast
  have s': "fst (series lib) = Inr ss \<longrightarrow>
        series (calls lower rs (snd (series lib)))
          = (Inr ss, calls lower rs (snd (series lib)))
        \<and> sonarr_requests (calls lower rs (snd (series lib)))
          = sonarr_requests (snd (series lib))"
    using series_returned_is_cached [of lib ss]
      series_frozen [of "snd (series lib)" ss lower rs] series_cached
    by blast
  have f1: "radarr_fetched (calls lower rs (new_library ra sa)) \<le> 1"
    and f2: "sonarr_fetched (calls lower rs (new_library ra sa)) \<le> 1"
    using fetched_at_most_once [of lower rs ra sa] by blast+
  have g1: "(radarr_fetched (calls lower rs (new_library ra sa)) = 1)
       = (cached_movies (calls lower rs (new_library ra sa)) \<noteq> None)"
    and g2: "(sonarr_fetched (calls lower rs (new_library ra sa)) = 1)
       = (cached_series (calls lower rs (new_library ra sa)) \<noteq> None)"
    using fetched_iff_cached [of lower rs ra sa] by blast+
  have a1: "radarr_answers (calls lower rs lib) = radarr_answers lib"
    and a2: "sonarr_answers (calls lower rs lib) = sonarr_answers lib"
    using services_fixed [of lib lower rs] by (simp_all add: same_services_def)
  show ?thesis
    by (intro conjI f1 f2 g1 g2 m s m' s' a1 a2)
qed

lemma steady_first_movies:
  "movies (new_library steady_radarr steady_sonarr)
     = (Inr (get_movies_of [movie_a_raw, no_file_raw]),
        (new_library steady_radarr steady_sonarr)
          \<lparr>radarr_requests := radarr_requests (new_library steady_radarr steady_sonarr) + 1,
           cached_movies := Some (get_movies_of [movie_a_raw, no_file_raw])\<rparr>)"
  by (rule movies_fetch_ok) (simp_all add: new_library_def steady_radarr_def)

lemma steady_first_series:
  "series (new_library steady_radarr steady_sonarr)
     = (Inr (get_series_of [zero_count_raw, show_x_raw]),
        (new_library steady_radarr steady_sonarr)
          \<lparr>sonarr_requests := sonarr_requests (new_library steady_radarr steady_sonarr) + 1,
           cached_series := Some (get_series_of [zero_count_raw, show_x_raw])\<rparr>)"
  by (rule series_fetch_ok) (simp_all add: new_library_def steady_sonarr_def)

lemma flaky_run:
  "radarr_requests (calls lower_ascii [Movies, Series, Movies, GetMediaSummary, Movies]
      (new_library flaky_radarr steady_sonarr)) = 2
   \<and> sonarr_requests (calls lower_ascii [Movies, Series, Movies, GetMediaSummary, Movies]
      (new_library flaky_radarr steady_sonarr)) = 1"
  by (simp add: calls_def movies_def series_def get_media_summary_def tv_shows_def anime_def
      and_then_def returns_def get_movies_def get_series_def radarr_get_def sonarr_get_def
      new_library_def flaky_radarr_def steady_sonarr_def)

theorem caches_fetched_once_then_frozen_witness:
  "cached_movies warm_library = Some []
   \<and> movies (calls lower_ascii [Series, GetMediaSummary, SearchByTheme [''drama'']] warm_library)
       = (Inr [], calls lower_ascii [Series, GetMediaSummary, SearchByTheme [''drama'']] warm_library)
   \<and> cached_series warm_library = Some [four_genre_anime, plain_show]
   \<and> series (calls lower_ascii [Series, GetMediaSummary, SearchByTheme [''drama'']] warm_library)
       = (Inr [four_genre_anime, plain_show],
          calls lower_ascii [Series, GetMediaSummary, SearchByTheme [''drama'']] warm_library)
   \<and> fst (movies (new_library steady_radarr steady_sonarr))
       = Inr (get_movies_of [movie_a_raw, no_file_raw])
   \<and> fst (movies (calls lower_ascii [Series, Movies, GetGenreStats]
         (snd (movies (new_library steady_radarr steady_sonarr)))))
       = Inr (get_movies_of [movie_a_raw, no_file_raw])
   \<and> fst (series (new_library steady_radarr steady_sonarr))
       = Inr (get_series_of [zero_count_raw, show_x_raw])
   \<and> fst (series (calls lower_ascii [Series, Movies, GetGenreStats]
         (snd (series (new_library steady_radarr steady_sonarr)))))
       = Inr (get_series_of [zero_count_raw, show_x_raw])
   \<and> radarr_fetched (calls lower_ascii [Movies, Series, Movies, GetMediaSummary, Movies]
         (new_library flaky_radarr steady_sonarr)) \<le> 1"
proof -
  let ?rs = "[Series, GetMediaSummary, SearchByTheme [''drama'']]"
  let ?qs = "[Series, Movies, GetGenreStats]"
  let ?new = "new_library steady_radarr steady_sonarr"
  note w = caches_fetched_once_then_frozen
    [of lower_ascii ?rs flaky_radarr steady_sonarr warm_library "[]"
        "[four_genre_anime, plain_show]"]
  note n = caches_fetched_once_then_frozen
    [of lower_ascii ?qs flaky_radarr steady_sonarr ?new
        "get_movies_of [movie_a_raw, no_file_raw]" "get_series_of [zero_count_raw, show_x_raw]"]
  note f = caches_fetched_once_then_frozen
    [of lower_ascii "[Movies, Series, Movies, GetMediaSummary, Movies]" flaky_radarr
        steady_sonarr warm_library "[]" "[]"]
  have c1: "cached_movies warm_library = Some []"
    and c2: "cached_series warm_library = Some [four_genre_anime, plain_show]"
    by (simp_all add: warm_library_def)
  have m1: "fst (movies ?new) = Inr (get_movies_of [movie_a_raw, no_file_raw])"
    by (simp add: steady_first_movies)
  have s1: "fst (series ?new) = Inr (get_series_of [zero_count_raw, show_x_raw])"
    by (simp add: steady_first_series)
  from w c1 have a: "movies (calls lower_ascii ?rs warm_library)
      = (Inr [], calls lower_ascii ?rs warm_library)" by blast
  from w c2 have b: "series (calls lower_ascii ?rs warm_library)
      = (Inr [four_genre_anime, plain_show], calls lower_ascii ?rs warm_library)" by blast
  from n m1 have "movies (calls lower_ascii ?qs (snd (movies ?new)))
      = (Inr (get_movies_of [movie_a_raw, no_file_raw]),
         calls lower_ascii ?qs (snd (movies ?new)))" by blast
  then have c: "fst (movies (calls lower_ascii ?qs (snd (movies ?new))))
      = Inr (get_movies_of [movie_a_raw, no_file_raw])" by simp
  from n s1 have "series (calls lower_ascii ?qs (snd (series ?new)))
      = (Inr (get_series_of [zero_count_raw, show_x_raw]),
         calls lower_ascii ?qs (snd (series ?new)))" by blast
  then have d: "fst (series (calls lower_ascii ?qs (snd (series ?new))))
      = Inr (get_series_of [zero_count_raw, show_x_raw])" by simp
  from f have e: "radarr_fetched (calls lower_ascii
      [Movies, Series, Movies, GetMediaSummary, Movies]
      (new_library flaky_radarr steady_sonarr)) \<le> 1" by blast
  from c1 a c2 b m1 c s1 d e show ?thesis by blast
qed

section \<open>Failures of a catalog fetch\<close>

lemma movies_leaves_series_side:
  "cached_series (snd (movies lib)) = cached_series lib
   \<and> sonarr_requests (snd (movies lib)) = sonarr_requests lib
   \<and> sonarr_answers (snd (movies lib)) = sonarr_answers lib"
  by (cases lib rule: movies_cases) simp_all

lemma series_leaves_movies_side:
  "cached_movies (snd (series lib)) = cached_movies lib
   \<and> radarr_requests (snd (series lib)) = radarr_requests lib
   \<and> radarr_answers (snd (series lib)) = radarr_answers lib"
  by (cases lib rule: series_cases) simp_all

lemma summary_fails_with_movies:
  assumes "cached_movies lib = None" and "radarr_answers lib (radarr_requests lib) = Inl e"
  shows "get_media_summary lower lib = (Inl e, lib\<lparr>radarr_requests := radarr_requests lib + 1\<rparr>)"
  using assms by (simp add: get_media_summary_def and_then_def movies_fetch_failed)

lemma summary_fails_with_series:
  assumes "fst (movies lib) = Inr ms" and "cached_series lib = None"
    and "sonarr_answers lib (sonarr_requests lib) = Inl e"
  shows "fst (get_media_summary lower lib) = Inl e"
proof -
  define lib1 where "lib1 = snd (movies lib)"
  from assms(1) have m: "movies lib = (Inr ms, lib1)"
    by (simp add: lib1_def prod_eq_iff)
  from assms(1) have c: "cached_movies lib1 = Some ms"
    unfolding lib1_def by (rule movies_returned_is_cached)
  from movies_leaves_series_side [of lib] assms(2,3)
  have s: "cached_series lib1 = None" "sonarr_answers lib1 (sonarr_requests lib1) = Inl e"
    by (simp_all add: lib1_def)
  have "series lib1 = (Inl e, lib1\<lparr>sonarr_requests := sonarr_requests lib1 + 1\<rparr>)"
    using s by (rule series_fetch_failed)
  then have "fst (tv_shows lower lib1) = Inl e"
    by (simp add: tv_shows_def anime_def and_then_def)
  then have "fst (and_then (tv_shows lower) f lib1) = Inl e" for f :: "SeriesItem list \<Rightarrow> media_summary action"
    by (cases "tv_shows lower lib1") (simp add: and_then_def)
  with m c show ?thesis
    by (simp add: get_media_summary_def and_then_def [of movies] movies_cached)
qed

lemma series_after_failed_movies:
  assumes "cached_movies lib = None" and "radarr_answers lib (radarr_requests lib) = Inl e"
    and "cached_series lib = None" and "sonarr_answers lib (sonarr_requests lib) = Inr sdata"
  shows "fst (series (snd (movies lib))) = Inr (get_series_of sdata)"
proof -
  from movies_leaves_series_side [of lib] assms(3,4)
  have "cached_series (snd (movies lib)) = None"
    and "sonarr_answers (snd (movies lib)) (sonarr_requests (snd (movies lib))) = Inr sdata"
    by simp_all
  then show ?thesis by (simp add: series_fetch_ok)
qed

lemma cached_series_after_failed_movies:
  assumes "cached_series lib = Some ss"
  shows "series (snd (movies lib)) = (Inr ss, snd (movies lib))"
  using movies_leaves_series_side [of lib] assms by (simp add: series_cached)

text \<open>
  C9. A request that fails makes \<open>get_movies\<close> (and \<open>get_series\<close>) raise the error the
  request raised, after that one request, with no list. A read of \<open>movies\<close> with an
  empty cache then raises the same error and leaves the movie cache empty and the
  series side untouched: a read of \<open>series\<close> after it returns the series cache, or
  fetches and returns the catalog when the series service answers. \<open>get_media_summary\<close>
  raises the error when the movie fetch fails, and also when the movies are available
  and the series fetch fails.
\<close>

theorem fetch_failure_propagates:
  "(radarr_answers lib (radarr_requests lib) = Inl e \<longrightarrow>
      get_movies lib = (Inl e, lib\<lparr>radarr_requests := radarr_requests lib + 1\<rparr>))
   \<and> (sonarr_answers lib (sonarr_requests lib) = Inl e \<longrightarrow>
      get_series lib = (Inl e, lib\<lparr>sonarr_requests := sonarr_requests lib + 1\<rparr>))
   \<and> (cached_movies lib = None \<and> radarr_answers lib (radarr_requests lib) = Inl e \<longrightarrow>
      movies lib = (Inl e, lib\<lparr>radarr_requests := radarr_requests lib + 1\<rparr>)
      \<and> cached_movies (snd (movies lib)) = None
      \<and> cached_series (snd (movies lib)) = cached_series lib
      \<and> sonarr_requests (snd (movies lib)) = sonarr_requests lib)
   \<and> (cached_series lib = None \<and> sonarr_answers lib (sonarr_requests lib) = Inl e \<longrightarrow>
      series lib = (Inl e, lib\<lparr>sonarr_requests := sonarr_requests lib + 1\<rparr>)
      \<and> cached_series (snd (series lib)) = None
      \<and> cached_movies (snd (series lib)) = cached_movies lib
      \<and> radarr_requests (snd (series lib)) = radarr_requests lib)
   \<and> (cached_movies lib = None \<and> radarr_answers lib (radarr_requests lib) = Inl e
        \<and> cached_series lib = None \<and> sonarr_answers lib (sonarr_requests lib) = Inr sdata \<longrightarrow>
      fst (series (snd (movies lib))) = Inr (get_series_of sdata))
   \<and> (cached_movies lib = None \<and> radarr_answers lib (radarr_requests lib) = Inl e
        \<and> cached_series lib = Some ss \<longrightarrow>
      series (snd (movies lib)) = (Inr ss, snd (movies lib)))
   \<and> (cached_movies lib = None \<and> radarr_answers lib (radarr_requests lib) = Inl e \<longrightarrow>
      get_media_summary lower lib
        = (Inl e, lib\<lparr>radarr_requests := radarr_requests lib + 1\<rparr>))
   \<and> (fst (movies lib) = Inr ms \<and> cached_series lib = None
        \<and> sonarr_answers lib (sonarr_requests lib) = Inl e \<longrightarrow>
      fst (get_media_summary lower lib) = Inl e)"
proof -
  have a: "radarr_answers lib (radarr_requests lib) = Inl e \<longrightarrow>
      get_movies lib = (Inl e, lib\<lparr>radarr_requests := radarr_requests lib + 1\<rparr>)"
    by (simp add: get_movies_failed)
  have b: "sonarr_answers lib (sonarr_requests lib) = Inl e \<longrightarrow>
      get_series lib = (Inl e, lib\<lparr>sonarr_requests := sonarr_requests lib + 1\<rparr>)"
    by (simp add: get_series_failed)
  have c: "cached_movies lib = None \<and> radarr_answers lib (radarr_requests lib) = Inl e \<longrightarrow>
      movies lib = (Inl e, lib\<lparr>radarr_requests := radarr_requests lib + 1\<rparr>)
      \<and> cached_movies (snd (movies lib)) = None
      \<and> cached_series (snd (movies lib)) = cached_series lib
      \<and> sonarr_requests (snd (movies lib)) = sonarr_requests lib"
    by (simp add: movies_fetch_failed)
  have d: "cached_series lib = None \<and> sonarr_answers lib (sonarr_requests lib) = Inl e \<longrightarrow>
      series lib = (Inl e, lib\<lparr>sonarr_requests := sonarr_requests lib + 1\<rparr>)
      \<and> cached_series (snd (series lib)) = None
      \<and> cached_movies (snd (series lib)) = cached_movies lib
      \<and> radarr_requests (snd (series lib)) = radarr_requests lib"
    by (simp add: series_fetch_failed)
  have f: "cached_movies lib = None \<and> radarr_answers lib (radarr_requests lib) = Inl e
        \<and> cached_series lib = None \<and> sonarr_answers lib (sonarr_requests lib) = Inr sdata \<longrightarrow>
      fst (series (snd (movies lib))) = Inr (get_series_of sdata)"
    using series_after_failed_movies by blast
  have g: "cached_movies lib = None \<and> radarr_answers lib (radarr_requests lib) = Inl e
        \<and> cached_series lib = Some ss \<longrightarrow>
      series (snd (movies lib)) = (Inr ss, snd (movies lib))"
    using cached_series_after_failed_movies by blast
  have h: "cached_movies lib = None \<and> radarr_answers lib (radarr_requests lib) = Inl e \<longrightarrow>
      get_media_summary lower lib
        = (Inl e, lib\<lparr>radarr_requests := radarr_requests lib + 1\<rparr>)"
    using summary_fails_with_movies by blast
  have i: "fst (movies lib) = Inr ms \<and> cached_series lib = None
        \<and> sonarr_answers lib (sonarr_requests lib) = Inl e \<longrightarrow>
      fst (get_media_summary lower lib) = Inl e"
    using summary_fails_with_series by blast
  show ?thesis
    by (intro conjI a b c d f g h i)
qed

theorem fetch_failure_propagates_witness:
  "cached_movies (new_library down_radarr steady_sonarr) = None
   \<and> radarr_answers (new_library down_radarr steady_sonarr)
       (radarr_requests (new_library down_radarr steady_sonarr))
       = Inl (TransportError ''connection refused'')
   \<and> cached_series (new_library down_radarr steady_sonarr) = None
   \<and> sonarr_answers (new_library down_radarr steady_sonarr)
       (sonarr_requests (new_library down_radarr steady_sonarr))
       = Inr [zero_count_raw, show_x_raw]
   \<and> fst (movies (new_library down_radarr steady_sonarr))
       = Inl (TransportError ''connection refused'')
   \<and> fst (series (snd (movies (new_library down_radarr steady_sonarr))))
       = Inr (get_series_of [zero_count_raw, show_x_raw])
   \<and> fst (get_media_summary lower_ascii (new_library down_radarr steady_sonarr))
       = Inl (TransportError ''connection refused'')
   \<and> cached_series ((new_library down_radarr steady_sonarr)\<lparr>cached_series := Some [plain_show]\<rparr>)
       = Some [plain_show]
   \<and> fst (series (snd (movies
         ((new_library down_radarr steady_sonarr)\<lparr>cached_series := Some [plain_show]\<rparr>))))
       = Inr [plain_show]
   \<and> fst (movies (new_library steady_radarr down_sonarr))
       = Inr (get_movies_of [movie_a_raw, no_file_raw])
   \<and> cached_series (new_library steady_radarr down_sonarr) = None
   \<and> sonarr_answers (new_library steady_radarr down_sonarr)
       (sonarr_requests (new_library steady_radarr down_sonarr)) = Inl (HTTPStatusError 500)
   \<and> fst (series (new_library steady_radarr down_sonarr)) = Inl (HTTPStatusError 500)
   \<and> fst (get_media_summary lower_ascii (new_library steady_radarr down_sonarr))
       = Inl (HTTPStatusError 500)"
proof -
  let ?down = "new_library down_radarr steady_sonarr"
  let ?half = "(new_library down_radarr steady_sonarr)\<lparr>cached_series := Some [plain_show]\<rparr>"
  let ?nos = "new_library steady_radarr down_sonarr"
  let ?e = "TransportError ''connection refused''"
  note t1 = fetch_failure_propagates
    [of ?down ?e "[zero_count_raw, show_x_raw]" "[]" lower_ascii "[]"]
  note t2 = fetch_failure_propagates
    [of ?half ?e "[]" "[plain_show]" lower_ascii "[]"]
  note t3 = fetch_failure_propagates
    [of ?nos "HTTPStatusError 500" "[]" "[]" lower_ascii
        "get_movies_of [movie_a_raw, no_file_raw]"]
  have h1: "cached_movies ?down = None" "radarr_answers ?down (radarr_requests ?down) = Inl ?e"
    "cached_series ?down = None"
    "sonarr_answers ?down (sonarr_requests ?down) = Inr [zero_count_raw, show_x_raw]"
    by (simp_all add: new_library_def down_radarr_def steady_sonarr_def)
  have h2: "cached_movies ?half = None" "radarr_answers ?half (radarr_requests ?half) = Inl ?e"
    "cached_series ?half = Some [plain_show]"
    by (simp_all add: new_library_def down_radarr_def)
  have h3: "fst (movies ?nos) = Inr (get_movies_of [movie_a_raw, no_file_raw])"
    "cached_series ?nos = None"
    "sonarr_answers ?nos (sonarr_requests ?nos) = Inl (HTTPStatusError 500)"
    by (simp_all add: movies_fetch_ok new_library_def steady_radarr_def down_sonarr_def)
  from t1 h1 have "movies ?down = (Inl ?e, ?down\<lparr>radarr_requests := radarr_requests ?down + 1\<rparr>)"
    by blast
  then have r1a: "fst (movies ?down) = Inl ?e" by simp
  from t1 h1
  have r1b: "fst (series (snd (movies ?down))) = Inr (get_series_of [zero_count_raw, show_x_raw])"
    by blast
  from t1 h1 have "get_media_summary lower_ascii ?down
      = (Inl ?e, ?down\<lparr>radarr_requests := radarr_requests ?down + 1\<rparr>)"
    by blast
  then have r1c: "fst (get_media_summary lower_ascii ?down) = Inl ?e" by simp
  note r1 = r1a r1b r1c
  from t2 h2 have "series (snd (movies ?half)) = (Inr [plain_show], snd (movies ?half))"
    by blast
  then have r2: "fst (series (snd (movies ?half))) = Inr [plain_show]" by simp
  from t3 h3 have "series ?nos
      = (Inl (HTTPStatusError 500), ?nos\<lparr>sonarr_requests := sonarr_requests ?nos + 1\<rparr>)"
    by blast
  then have r3a: "fst (series ?nos) = Inl (HTTPStatusError 500)" by simp
  from t3 h3 have r3b: "fst (get_media_summary lower_ascii ?nos) = Inl (HTTPStatusError 500)"
    by blast
  note r3 = r3a r3b
  from h1 h2 h3 r1 r2 r3 show ?thesis by blast
qed

section \<open>Theme search\<close>







lemma search_lists_no_keywords: "search_lists lower ms tv an [] = no_matches"
  by (simp add: search_lists_def no_matches_def)

text \<open>
  \<open>search_by_theme\<close> in any state: it reads \<open>movies\<close>, then the series (once, through
  \<open>tv_shows\<close>; the later reads find the cache populated), and raises what either read
  raises.
\<close>

lemma search_by_theme_unfold:
  "search_by_theme lower ks lib =
     (case movies lib of
        (Inl e, l1) \<Rightarrow> (Inl e, l1)
      | (Inr ms, l1) \<Rightarrow>
          (case series l1 of
             (Inl e, l2) \<Rightarrow> (Inl e, l2)
           | (Inr ss, l2) \<Rightarrow>
               (Inr (search_lists lower ms (tv_shows_of lower ss) (anime_of lower ss) ks), l2)))"
proof -
  obtain r1 l1 where m: "movies lib = (r1, l1)" by (cases "movies lib")
  show ?thesis
  proof (cases r1)
    case (Inl e)
    with m show ?thesis by (simp add: search_by_theme_def and_then_def)
  next
    case ms: (Inr ms)
    obtain r2 l2 where s: "series l1 = (r2, l2)" by (cases "series l1")
    show ?thesis
    proof (cases r2)
      case (Inl e)
      with m ms s show ?thesis
        by (simp add: search_by_theme_def tv_shows_def anime_def and_then_def)
    next
      case ss: (Inr ss)
      from s ss have "fst (series l1) = Inr ss" and l2: "l2 = snd (series l1)" by simp_all
      then have c: "cached_series l2 = Some ss"
        using series_returned_is_cached by blast
      have t: "tv_shows lower l1 = (Inr (tv_shows_of lower ss), l2)"
        using s ss c
        by (simp add: tv_shows_def anime_def and_then_def returns_def series_cached
            tv_shows_of_def)
      have a: "anime lower l2 = (Inr (anime_of lower ss), l2)"
        using c by (rule anime_cached)
      from m ms s ss t a show ?thesis
        by (simp add: search_by_theme_def and_then_def [of movies]
            and_then_def [of "tv_shows lower"] and_then_def [of "anime lower"] returns_def)
    qed
  qed
qed







lemma lower_empty: "lower_ascii '''' = ''''"
  by (simp add: lower_ascii_def)




text \<open>
  C10. With an empty keyword list nothing matches: in every state \<open>search_by_theme\<close>
  either raises what a fetch raised or returns three empty lists, whatever the caches
  hold; with both caches populated it returns the three empty lists.
\<close>

theorem search_by_theme_no_keywords:
  "search_lists lower ms tv an [] = no_matches
   \<and> no_matches = \<lparr>matching_movies = [], matching_shows = [], matching_anime = []\<rparr>
   \<and> search_by_theme lower [] lib =
       (case movies lib of
          (Inl e, l1) \<Rightarrow> (Inl e, l1)
        | (Inr ms, l1) \<Rightarrow>
            (case series l1 of
               (Inl e, l2) \<Rightarrow> (Inl e, l2)
             | (Inr ss, l2) \<Rightarrow> (Inr no_matches, l2)))
   \<and> (cached_movies lib = Some ms \<and> cached_series lib = Some ss \<longrightarrow>
        search_by_theme lower [] lib = (Inr no_matches, lib))
   \<and> (fst (search_by_theme lower [] lib) = Inr r \<longrightarrow> r = no_matches)"
proof -
  have u: "search_by_theme lower [] lib =
       (case movies lib of
          (Inl e, l1) \<Rightarrow> (Inl e, l1)
        | (Inr ms, l1) \<Rightarrow>
            (case series l1 of
               (Inl e, l2) \<Rightarrow> (Inl e, l2)
             | (Inr ss, l2) \<Rightarrow> (Inr no_matches, l2)))"
    by (simp add: search_by_theme_unfold search_lists_no_keywords split: prod.splits sum.splits)
  have c: "cached_movies lib = Some ms \<and> cached_series lib = Some ss \<longrightarrow>
        search_by_theme lower [] lib = (Inr no_matches, lib)"
    by (simp add: search_by_theme_cached search_lists_no_keywords)
  have f: "fst (search_by_theme lower [] lib) = Inr r \<longrightarrow> r = no_matches"
    by (auto simp: u split: prod.splits sum.splits)
  show ?thesis
    by (intro conjI search_lists_no_keywords u c f) (simp add: no_matches_def)
qed

theorem search_by_theme_no_keywords_witness:
  "cached_movies warm_library = Some []
   \<and> cached_series warm_library = Some [four_genre_anime, plain_show]
   \<and> search_by_theme lower_ascii [] warm_library
       = (Inr \<lparr>matching_movies = [], matching_shows = [], matching_anime = []\<rparr>, warm_library)
   \<and> fst (search_by_theme lower_ascii [] warm_library) = Inr no_matches"
proof -
  note t = search_by_theme_no_keywords
    [of lower_ascii "[]" "[]" "[]" warm_library "[four_genre_anime, plain_show]" no_matches]
  have c: "cached_movies warm_library = Some []"
    "cached_series warm_library = Some [four_genre_anime, plain_show]"
    by (simp_all add: warm_library_def)
  from t c have r: "search_by_theme lower_ascii [] warm_library = (Inr no_matches, warm_library)"
    by blast
  then have f: "fst (search_by_theme lower_ascii [] warm_library) = Inr no_matches" by simp
  from r have "search_by_theme lower_ascii [] warm_library
      = (Inr \<lparr>matching_movies = [], matching_shows = [], matching_anime = []\<rparr>, warm_library)"
    by (simp add: no_matches_def)
  with c f show ?thesis by blast
qed


end
